theory Spec2Isabelle
  imports Complex_Main "HOL-Library.AList"
begin

section \<open>Python values\<close>

text \<open>
  A Python \<open>str\<close> is a sequence of Unicode code points; a code point is a natural
  number.  \<open>lit\<close> turns an ASCII literal into such a string.
\<close>

type_synonym codepoint = nat
type_synonym pystr = "codepoint list"

definition lit :: "string \<Rightarrow> pystr" where
  "lit s = map of_char s"

text \<open>
  The values that occur in the dictionaries of this program: \<open>None\<close>, booleans,
  integers, strings and \<open>datetime.date\<close> objects (by ordinal).  Floats and
  containers are not modelled.
\<close>

datatype pyval = PNone | PBool bool | PInt int | PStr pystr | PDate int

text \<open>Truthiness, as \<open>if v:\<close>, \<open>not v\<close>, \<open>a and b\<close>, \<open>a or b\<close> and \<open>bool(v)\<close> test it.\<close>

fun truthy :: "pyval \<Rightarrow> bool" where
  "truthy PNone = False"
| "truthy (PBool b) = b"
| "truthy (PInt n) = (n \<noteq> 0)"
| "truthy (PStr s) = (s \<noteq> [])"
| "truthy (PDate d) = True"

text \<open>
  A \<open>dict\<close> with string keys, in insertion order.  \<open>d.get(k)\<close> is \<open>get d k\<close>,
  \<open>d.get(k, v)\<close> is \<open>get_default d k v\<close>, and \<open>d[k] = v\<close> is \<open>AList.update k v d\<close>.
\<close>

type_synonym pydict = "(string \<times> pyval) list"

definition get :: "pydict \<Rightarrow> string \<Rightarrow> pyval" where
  "get d k = (case map_of d k of None \<Rightarrow> PNone | Some v \<Rightarrow> v)"

definition get_default :: "pydict \<Rightarrow> string \<Rightarrow> pyval \<Rightarrow> pyval" where
  "get_default d k v = (case map_of d k of None \<Rightarrow> v | Some w \<Rightarrow> w)"

text \<open>The exceptions that the modelled code can raise or has to handle.\<close>

datatype request_error = ConnectionError | Timeout | TooManyRedirects | RetryError | HTTPError int

datatype exn =
    ValueError
  | TypeError
  | AttributeError
  | RequestException request_error
  | OtherException

section \<open>Character classes and regular expressions of the source\<close>

text \<open>\<open>a-z\<close>, \<open>A-Z\<close> and \<open>0-9\<close> inside a character class, and the underscore.\<close>

definition is_lower_az :: "codepoint \<Rightarrow> bool" where
  "is_lower_az c = (97 \<le> c \<and> c \<le> 122)"

definition is_upper_az :: "codepoint \<Rightarrow> bool" where
  "is_upper_az c = (65 \<le> c \<and> c \<le> 90)"

definition is_digit09 :: "codepoint \<Rightarrow> bool" where
  "is_digit09 c = (48 \<le> c \<and> c \<le> 57)"

definition underscore :: codepoint where
  "underscore = 95"

definition space :: codepoint where
  "space = 32"

definition newline :: codepoint where
  "newline = 10"

text \<open>
  \<open>\s\<close> in a \<open>str\<close> pattern, which is also what \<open>str.strip()\<close> removes: the code
  points for which \<open>str.isspace()\<close> holds.
\<close>

definition is_space :: "codepoint \<Rightarrow> bool" where
  "is_space c =
     ((9 \<le> c \<and> c \<le> 13) \<or> (28 \<le> c \<and> c \<le> 32) \<or> c = 133 \<or> c = 160 \<or> c = 5760
      \<or> (8192 \<le> c \<and> c \<le> 8202) \<or> c = 8232 \<or> c = 8233 \<or> c = 8239 \<or> c = 8287
      \<or> c = 12288)"

text \<open>\<open>s.strip()\<close>\<close>

definition strip :: "pystr \<Rightarrow> pystr" where
  "strip s = rev (dropWhile is_space (rev (dropWhile is_space s)))"

text \<open>\<open>re.sub(r'[^a-z0-9\s]', '', s)\<close>: every character outside the class is deleted.\<close>

definition sub_non_alnum_space :: "pystr \<Rightarrow> pystr" where
  "sub_non_alnum_space s = filter (\<lambda>c. is_lower_az c \<or> is_digit09 c \<or> is_space c) s"

text \<open>
  \<open>re.sub(r'\s+', repl, s)\<close>: every maximal run of whitespace is replaced by \<open>repl\<close>.
\<close>

function sub_spaces :: "pystr \<Rightarrow> pystr \<Rightarrow> pystr" where
  "sub_spaces repl [] = []"
| "sub_spaces repl (c # cs) =
     (if is_space c then repl @ sub_spaces repl (dropWhile is_space cs)
      else c # sub_spaces repl cs)"
  by pat_completeness auto
termination
  by (relation "measure (\<lambda>(repl, s). length s)")
     (auto simp: length_dropWhile_le less_Suc_eq_le)

text \<open>\<open>s.replace(' ', '_')\<close>, a replacement of one character by one character.\<close>

definition replace_space_underscore :: "pystr \<Rightarrow> pystr" where
  "replace_space_underscore s = map (\<lambda>c. if c = space then underscore else c) s"

section \<open>Name normalisation\<close>

text \<open>
  \<open>BaseScraper.normalize_name\<close> (scrapers/base\_scraper.py).  \<open>str.lower\<close> and the
  \<open>unidecode\<close> function of the third-party package are parameters: their tables are
  not part of the repository.  The argument is \<open>None\<close> or a string.
\<close>

definition normalize_name ::
  "(pystr \<Rightarrow> pystr) \<Rightarrow> (pystr \<Rightarrow> pystr) \<Rightarrow> pystr option \<Rightarrow> pystr" where
  "normalize_name lower unidecode name =
     (case name of
        None \<Rightarrow> []
      | Some n \<Rightarrow>
          if n = [] then []
          else
            let normalized = unidecode (strip (lower n));
                normalized = sub_non_alnum_space normalized;
                normalized = sub_spaces [underscore] normalized
            in normalized)"

text \<open>\<open>NameNormalizer.normalize\<close> (utils/name\_normalizer.py).\<close>

definition normalize ::
  "(pystr \<Rightarrow> pystr) \<Rightarrow> (pystr \<Rightarrow> pystr) \<Rightarrow> pystr option \<Rightarrow> pystr" where
  "normalize lower unidecode name =
     (case name of
        None \<Rightarrow> []
      | Some n \<Rightarrow>
          if n = [] then []
          else
            let normalized = unidecode (strip (lower n));
                normalized = sub_non_alnum_space normalized;
                normalized = sub_spaces [space] normalized;
                normalized = replace_space_underscore normalized
            in normalized)"

text \<open>
  \<open>BaseScraper.normalize_team_id\<close> and \<open>BaseScraper.normalize_player_id\<close>:
  the f-string \<open>f"{league_id}_{normalized}"\<close>.
\<close>

definition normalize_team_id ::
  "(pystr \<Rightarrow> pystr) \<Rightarrow> (pystr \<Rightarrow> pystr) \<Rightarrow> pystr \<Rightarrow> pystr option \<Rightarrow> pystr" where
  "normalize_team_id lower unidecode league_id team_name =
     (let normalized = normalize_name lower unidecode team_name
      in league_id @ [underscore] @ normalized)"

definition normalize_player_id ::
  "(pystr \<Rightarrow> pystr) \<Rightarrow> (pystr \<Rightarrow> pystr) \<Rightarrow> pystr \<Rightarrow> pystr option \<Rightarrow> pystr" where
  "normalize_player_id lower unidecode league_id player_name =
     (let normalized = normalize_name lower unidecode player_name
      in league_id @ [underscore] @ normalized)"

text \<open>
  \<open>DataValidator._is_valid_id\<close> (services/data\_validator.py).  A falsy value gives
  \<open>False\<close>; \<open>re.match\<close> accepts only a string and raises \<open>TypeError\<close> on any other
  value.  In \<open>^[A-Za-z0-9_]+$\<close> the \<open>$\<close> also matches just before a final newline.
\<close>

definition is_id_char :: "codepoint \<Rightarrow> bool" where
  "is_id_char c = (is_upper_az c \<or> is_lower_az c \<or> is_digit09 c \<or> c = underscore)"

definition match_id_pattern :: "pystr \<Rightarrow> bool" where
  "match_id_pattern s =
     ((s \<noteq> [] \<and> list_all is_id_char s) \<or>
      (s \<noteq> [] \<and> last s = newline \<and> butlast s \<noteq> [] \<and> list_all is_id_char (butlast s)))"

text \<open>A character of a normalised name: a lowercase ASCII letter, a digit or an underscore.\<close>

definition is_norm_char :: "codepoint \<Rightarrow> bool" where
  "is_norm_char c = (is_lower_az c \<or> is_digit09 c \<or> c = underscore)"

definition is_valid_id :: "pyval \<Rightarrow> exn + bool" where
  "is_valid_id id_value =
     (if \<not> truthy id_value then Inr False
      else case id_value of
             PStr s \<Rightarrow> Inr (match_id_pattern s)
           | _ \<Rightarrow> Inl TypeError)"


section \<open>The hometown cache of the database connector\<close>

text \<open>
  \<open>MySQLConnector\<close> (database/mysql\_connector.py) sends statements to a MySQL server.
  The server is the environment: it answers every statement, given the statements it
  has received before.  \<open>execute\<close> returns the number of affected rows, or \<open>None\<close>
  after a \<open>mysql.connector.Error\<close>, which it catches and logs; \<open>fetch_one\<close> and
  \<open>fetch_all\<close> return the rows, or \<open>None\<close> and \<open>[]\<close> after such an error.  Any
  other exception (no connection could be opened, for one) leaves the connector.
\<close>

datatype statement =
    SelectHometownCache
  | InsertHometownCache
  | SelectPlayersNeedingLookup
  | UpdatePlayerHometown
  | UpdatePlayerReview

type_synonym sql_call = "statement \<times> pyval list"

record mysql =
  on_execute :: "sql_call list \<Rightarrow> sql_call \<Rightarrow> exn + int option"
  on_fetch_one :: "sql_call list \<Rightarrow> sql_call \<Rightarrow> exn + pydict option"
  on_fetch_all :: "sql_call list \<Rightarrow> sql_call \<Rightarrow> exn + pydict list"

record connector =
  server :: mysql
  sent :: "sql_call list"

definition execute :: "connector \<Rightarrow> statement \<Rightarrow> pyval list \<Rightarrow> (exn + int option) \<times> connector" where
  "execute db query params =
     (on_execute (server db) (sent db) (query, params), db\<lparr>sent := sent db @ [(query, params)]\<rparr>)"

definition fetch_one :: "connector \<Rightarrow> statement \<Rightarrow> pyval list \<Rightarrow> (exn + pydict option) \<times> connector" where
  "fetch_one db query params =
     (on_fetch_one (server db) (sent db) (query, params), db\<lparr>sent := sent db @ [(query, params)]\<rparr>)"

definition fetch_all :: "connector \<Rightarrow> statement \<Rightarrow> pyval list \<Rightarrow> (exn + pydict list) \<times> connector" where
  "fetch_all db query params =
     (on_fetch_all (server db) (sent db) (query, params), db\<lparr>sent := sent db @ [(query, params)]\<rparr>)"

text \<open>\<open>MySQLConnector.get_hometown_cache\<close>\<close>

definition get_hometown_cache :: "connector \<Rightarrow> pystr \<Rightarrow> (exn + pydict option) \<times> connector" where
  "get_hometown_cache db normalized_name = fetch_one db SelectHometownCache [PStr normalized_name]"

text \<open>
  \<open>MySQLConnector.cache_hometown_lookup\<close>: the parameters of the \<open>INSERT\<close> are the
  key, the source and nine fields of the result; it returns whether \<open>execute\<close>
  returned a row count.
\<close>

definition cache_params :: "pystr \<Rightarrow> string \<Rightarrow> pydict \<Rightarrow> pyval list" where
  "cache_params normalized_name source result =
     [PStr normalized_name,
      PStr (lit source),
      get_default result ''lookup_successful'' (PBool False),
      get result ''hometown_city'',
      get result ''hometown_state'',
      get result ''high_school'',
      get result ''high_school_city'',
      get result ''high_school_state'',
      get result ''college'',
      get result ''source_url'',
      get result ''profile_url'',
      get result ''photo_url'']"

definition cache_hometown_lookup ::
  "connector \<Rightarrow> pystr \<Rightarrow> string \<Rightarrow> pydict \<Rightarrow> (exn + bool) \<times> connector" where
  "cache_hometown_lookup db normalized_name source result =
     (case execute db InsertHometownCache (cache_params normalized_name source result) of
        (Inl e, db') \<Rightarrow> (Inl e, db')
      | (Inr affected, db') \<Rightarrow> (Inr (affected \<noteq> None), db'))"

section \<open>The hometown lookup service\<close>

text \<open>
  \<open>HometownLookupService\<close> (services/hometown\_lookup.py).  A scraper's
  \<open>lookup_player\<close> fetches and parses web pages: for the service it is a function of
  the player name that raises or returns \<open>None\<close> or a dictionary.
\<close>

datatype scrape_outcome = Raises exn | Returns "pydict option"

type_synonym scraper = "pystr option \<Rightarrow> scrape_outcome"

text \<open>\<open>self.scrapers\<close> as \<open>__init__\<close> builds it, from the three scraper objects.\<close>

definition init_scrapers :: "scraper \<Rightarrow> scraper \<Rightarrow> scraper \<Rightarrow> (string \<times> scraper) list" where
  "init_scrapers basketball_ref wikipedia grokepedia =
     [(''basketball_reference'', basketball_ref),
      (''wikipedia'', wikipedia),
      (''grokepedia'', grokepedia)]"

text \<open>\<open>_has_required_data\<close>\<close>

definition has_required_data :: "pydict \<Rightarrow> bool" where
  "has_required_data result =
     (truthy (get result ''hometown_state'') \<or> truthy (get result ''high_school''))"

text \<open>\<open>_merge_results\<close>: the loop over \<open>fields_to_merge\<close>, then the \<open>source\<close> key.\<close>

definition fields_to_merge :: "string list" where
  "fields_to_merge =
     [''hometown_city'', ''hometown_state'',
      ''high_school'', ''high_school_city'', ''high_school_state'',
      ''college'', ''photo_url'', ''profile_url'']"

definition merge_field :: "pydict \<Rightarrow> string \<Rightarrow> pydict \<Rightarrow> pydict" where
  "merge_field source key target =
     (if \<not> truthy (get target key) \<and> truthy (get source key)
      then AList.update key (get source key) target
      else target)"

definition merge_results :: "pydict \<Rightarrow> pydict \<Rightarrow> string \<Rightarrow> pydict" where
  "merge_results target source source_name =
     (let target = fold (merge_field source) fields_to_merge target
      in if \<not> truthy (get target ''source'') \<and> truthy (get source ''lookup_successful'')
         then AList.update ''source'' (PStr (lit source_name)) target
         else target)"

text \<open>
  \<open>_get_cached_result\<close>: any exception of the connector is caught and logged, and
  the answer is then \<open>None\<close>.
\<close>

definition get_cached_result :: "connector option \<Rightarrow> pystr \<Rightarrow> pydict option \<times> connector option" where
  "get_cached_result db normalized_name =
     (case db of
        None \<Rightarrow> (None, None)
      | Some d \<Rightarrow>
          (case get_hometown_cache d normalized_name of
             (Inl e, d') \<Rightarrow> (None, Some d')
           | (Inr None, d') \<Rightarrow> (None, Some d')
           | (Inr (Some cached), d') \<Rightarrow>
               if cached \<noteq> [] then
                 (Some [(''hometown_city'', get cached ''hometown_city''),
                        (''hometown_state'', get cached ''hometown_state''),
                        (''high_school'', get cached ''high_school''),
                        (''high_school_city'', get cached ''high_school_city''),
                        (''high_school_state'', get cached ''high_school_state''),
                        (''college'', get cached ''college''),
                        (''photo_url'', get cached ''photo_url''),
                        (''profile_url'', get cached ''profile_url''),
                        (''source'', get cached ''lookup_source''),
                        (''lookup_successful'', get_default cached ''lookup_successful'' (PBool False))],
                  Some d')
               else (None, Some d')))"

text \<open>\<open>_cache_result\<close>: any exception of the connector is caught and logged.\<close>

definition cache_result :: "connector option \<Rightarrow> pystr \<Rightarrow> string \<Rightarrow> pydict \<Rightarrow> connector option" where
  "cache_result db normalized_name source result =
     (case db of
        None \<Rightarrow> None
      | Some d \<Rightarrow>
          (case cache_hometown_lookup d normalized_name source result of
             (Inl e, d') \<Rightarrow> Some d'
           | (Inr ok, d') \<Rightarrow> Some d'))"

text \<open>
  The state of \<open>lookup_player_hometown\<close>: the \<open>result\<close> dictionary, the connector,
  and the sources whose \<open>lookup_player\<close> has been called so far, in call order (each
  call follows the log line \<open>Trying {source_name} for {player_name}\<close>).
\<close>

record lookup_state =
  result :: pydict
  database :: "connector option"
  tried :: "string list"

definition initial_result :: pydict where
  "initial_result =
     [(''hometown_city'', PNone),
      (''hometown_state'', PNone),
      (''high_school'', PNone),
      (''high_school_city'', PNone),
      (''high_school_state'', PNone),
      (''college'', PNone),
      (''photo_url'', PNone),
      (''profile_url'', PNone),
      (''source'', PNone),
      (''lookup_successful'', PBool False),
      (''needs_manual_review'', PBool False)]"

text \<open>
  The \<open>for source_name, scraper in self.scrapers\<close> loop.  An exception of the scraper
  is caught, logged, and the loop continues; \<open>break\<close> ends the recursion.
\<close>

fun try_sources ::
  "pystr \<Rightarrow> pystr option \<Rightarrow> (string \<times> scraper) list \<Rightarrow> lookup_state \<Rightarrow> lookup_state" where
  "try_sources normalized_name player_name [] st = st"
| "try_sources normalized_name player_name ((source_name, scraper) # rest) st =
     (let st = st\<lparr>tried := tried st @ [source_name]\<rparr> in
      case scraper player_name of
        Raises e \<Rightarrow> try_sources normalized_name player_name rest st
      | Returns None \<Rightarrow> try_sources normalized_name player_name rest st
      | Returns (Some source_result) \<Rightarrow>
          if source_result \<noteq> [] then
            let st = st\<lparr>result := merge_results (result st) source_result source_name\<rparr>;
                st = (if database st \<noteq> None
                      then st\<lparr>database := cache_result (database st) normalized_name source_name source_result\<rparr>
                      else st)
            in if has_required_data (result st)
               then st\<lparr>result := AList.update ''lookup_successful'' (PBool True) (result st)\<rparr>
               else try_sources normalized_name player_name rest st
          else try_sources normalized_name player_name rest st)"

text \<open>
  \<open>lookup_player_hometown\<close>, in two parts: the lines after the cache check (the
  loop over the sources and the manual-review flag), and the whole method.
\<close>

definition lookup_sources ::
  "(string \<times> scraper) list \<Rightarrow> connector option \<Rightarrow> pystr \<Rightarrow> pystr option \<Rightarrow> lookup_state" where
  "lookup_sources scrapers db normalized_name player_name =
     (let st = try_sources normalized_name player_name scrapers
                 \<lparr>result = initial_result, database = db, tried = []\<rparr>
      in if \<not> truthy (get (result st) ''lookup_successful'')
         then st\<lparr>result := AList.update ''needs_manual_review'' (PBool True) (result st)\<rparr>
         else st)"

definition lookup_player_hometown ::
  "(pystr \<Rightarrow> pystr) \<Rightarrow> (pystr \<Rightarrow> pystr) \<Rightarrow> (string \<times> scraper) list \<Rightarrow> connector option \<Rightarrow>
   pystr option \<Rightarrow> bool \<Rightarrow> lookup_state" where
  "lookup_player_hometown lower unidecode scrapers db player_name force_refresh =
     (let normalized_name = normalize_name lower unidecode player_name
      in if \<not> force_refresh \<and> db \<noteq> None then
           (case get_cached_result db normalized_name of
              (Some cached, db') \<Rightarrow>
                if truthy (get cached ''lookup_successful'')
                then \<lparr>result = cached, database = db', tried = []\<rparr>
                else lookup_sources scrapers db' normalized_name player_name
            | (None, db') \<Rightarrow> lookup_sources scrapers db' normalized_name player_name)
         else lookup_sources scrapers db normalized_name player_name)"

text \<open>
  The cache answers a lookup when it is consulted (a connector is attached and
  \<open>force_refresh\<close> is off) and holds a successful entry for the normalised name.
\<close>

definition cache_hit ::
  "(pystr \<Rightarrow> pystr) \<Rightarrow> (pystr \<Rightarrow> pystr) \<Rightarrow> connector option \<Rightarrow> pystr option \<Rightarrow> bool \<Rightarrow> bool" where
  "cache_hit lower unidecode db player_name force_refresh =
     (\<not> force_refresh \<and> db \<noteq> None \<and>
      (case fst (get_cached_result db (normalize_name lower unidecode player_name)) of
         Some cached \<Rightarrow> truthy (get cached ''lookup_successful'')
       | None \<Rightarrow> False))"

text \<open>
  What one source contributes to the accumulated result, and the accumulated result
  after the first \<open>k\<close> sources: a source that raises, returns \<open>None\<close> or returns an
  empty dictionary contributes nothing.
\<close>

definition merge_outcome :: "pystr option \<Rightarrow> pydict \<Rightarrow> string \<times> scraper \<Rightarrow> pydict" where
  "merge_outcome player_name acc src =
     (case snd src player_name of
        Returns (Some source_result) \<Rightarrow>
          if source_result \<noteq> [] then merge_results acc source_result (fst src) else acc
      | _ \<Rightarrow> acc)"

definition accumulated :: "pystr option \<Rightarrow> (string \<times> scraper) list \<Rightarrow> nat \<Rightarrow> pydict" where
  "accumulated player_name scrapers k =
     foldl (merge_outcome player_name) initial_result (take k scrapers)"

text \<open>A source yields the minimum required data when it returns a dictionary that has it.\<close>

definition yields_required_data :: "scrape_outcome \<Rightarrow> bool" where
  "yields_required_data outcome =
     (case outcome of
        Returns (Some source_result) \<Rightarrow> has_required_data source_result
      | _ \<Rightarrow> False)"

text \<open>
  The row that caches the raw result of a source: the normalised name as key, the name
  of the source, the source's own \<open>lookup_successful\<close> flag (\<open>False\<close> when it has
  none) and the nine cached columns as the source returned them.  The \<open>INSERT\<close>
  statements of a list of sources: one such row for every source that returns a
  non-empty dictionary.
\<close>

definition cached_columns :: "string list" where
  "cached_columns =
     [''hometown_city'', ''hometown_state'',
      ''high_school'', ''high_school_city'', ''high_school_state'',
      ''college'', ''source_url'', ''profile_url'', ''photo_url'']"

definition raw_result_row :: "pystr \<Rightarrow> string \<Rightarrow> pydict \<Rightarrow> sql_call" where
  "raw_result_row normalized_name source_name source_result =
     (InsertHometownCache,
      PStr normalized_name # PStr (lit source_name)
      # get_default source_result ''lookup_successful'' (PBool False)
      # map (get source_result) cached_columns)"

definition cache_write :: "pystr \<Rightarrow> pystr option \<Rightarrow> string \<times> scraper \<Rightarrow> sql_call list" where
  "cache_write normalized_name player_name src =
     (case snd src player_name of
        Returns (Some source_result) \<Rightarrow>
          if source_result \<noteq> []
          then [raw_result_row normalized_name (fst src) source_result]
          else []
      | _ \<Rightarrow> [])"

definition cache_writes :: "pystr \<Rightarrow> pystr option \<Rightarrow> (string \<times> scraper) list \<Rightarrow> sql_call list" where
  "cache_writes normalized_name player_name srcs =
     concat (map (cache_write normalized_name player_name) srcs)"

text \<open>Auxiliary functions for the proofs about the loop: how many sources it calls,
  and what one iteration does to the connector.\<close>

fun consulted_count :: "pystr option \<Rightarrow> pydict \<Rightarrow> (string \<times> scraper) list \<Rightarrow> nat" where
  "consulted_count name acc [] = 0"
| "consulted_count name acc (src # rest) =
     (if has_required_data (merge_outcome name acc src) then 1
      else Suc (consulted_count name (merge_outcome name acc src) rest))"

definition cache_step ::
  "pystr \<Rightarrow> pystr option \<Rightarrow> string \<times> scraper \<Rightarrow> connector option \<Rightarrow> connector option" where
  "cache_step key name src db =
     (case snd src name of
        Returns (Some d) \<Rightarrow> if d \<noteq> [] \<and> db \<noteq> None then cache_result db key (fst src) d else db
      | _ \<Rightarrow> db)"

subsection \<open>Batch processing\<close>

text \<open>
  \<open>MySQLConnector.get_players_needing_hometown_lookup\<close>, \<open>update_player_hometown\<close>
  (\<open>today\<close> is \<open>date.today()\<close>) and \<open>mark_player_for_review\<close>.
\<close>

definition get_players_needing_hometown_lookup :: "connector \<Rightarrow> (exn + pydict list) \<times> connector" where
  "get_players_needing_hometown_lookup db = fetch_all db SelectPlayersNeedingLookup []"

definition update_player_hometown ::
  "int \<Rightarrow> connector \<Rightarrow> pyval \<Rightarrow> pydict \<Rightarrow> (exn + bool) \<times> connector" where
  "update_player_hometown today db player_id kwargs =
     (let params = [get kwargs ''hometown_city'',
                    get kwargs ''hometown_state'',
                    get kwargs ''high_school'',
                    get kwargs ''high_school_city'',
                    get kwargs ''high_school_state'',
                    get kwargs ''college'',
                    get kwargs ''hometown_source'',
                    PDate today,
                    player_id]
      in case execute db UpdatePlayerHometown params of
           (Inl e, db') \<Rightarrow> (Inl e, db')
         | (Inr affected, db') \<Rightarrow> (Inr (affected \<noteq> None), db'))"

definition mark_player_for_review :: "connector \<Rightarrow> pyval \<Rightarrow> (exn + bool) \<times> connector" where
  "mark_player_for_review db player_id =
     (case execute db UpdatePlayerReview [player_id] of
        (Inl e, db') \<Rightarrow> (Inl e, db')
      | (Inr affected, db') \<Rightarrow> (Inr (affected \<noteq> None), db'))"

text \<open>
  \<open>process_all_american_players\<close>.  \<open>full_name\<close> is a text column of the \<open>players\<close>
  table: a string, or \<open>None\<close> for \<open>NULL\<close>.  The service and the connector are one
  object each, so the connector after a lookup is the one the lookup left behind.
\<close>

record summary =
  total :: int
  success :: int
  failed :: int
  needs_review :: int

datatype report = NoDatabaseConnection | Summary summary

definition as_name :: "pyval \<Rightarrow> pystr option" where
  "as_name v = (case v of PStr s \<Rightarrow> Some s | _ \<Rightarrow> None)"

definition attached :: "connector \<Rightarrow> connector option \<Rightarrow> connector" where
  "attached db after = (case after of Some db' \<Rightarrow> db' | None \<Rightarrow> db)"

text \<open>One iteration of \<open>for player in players\<close>; an exception of the connector ends the method.\<close>

definition process_player ::
  "(pystr \<Rightarrow> pystr) \<Rightarrow> (pystr \<Rightarrow> pystr) \<Rightarrow> (string \<times> scraper) list \<Rightarrow> int \<Rightarrow>
   pydict \<Rightarrow> summary \<Rightarrow> connector \<Rightarrow> (exn + summary) \<times> connector" where
  "process_player lower unidecode scrapers today player summary db =
     (let player_id = get player ''player_id'';
          player_name = as_name (get player ''full_name'');
          st = lookup_player_hometown lower unidecode scrapers (Some db) player_name False;
          db = attached db (database st)
      in if truthy (get (result st) ''lookup_successful'') then
           (case update_player_hometown today db player_id
                   [(''hometown_city'', get (result st) ''hometown_city''),
                    (''hometown_state'', get (result st) ''hometown_state''),
                    (''high_school'', get (result st) ''high_school''),
                    (''high_school_city'', get (result st) ''high_school_city''),
                    (''high_school_state'', get (result st) ''high_school_state''),
                    (''college'', get (result st) ''college''),
                    (''hometown_source'', get (result st) ''source'')] of
              (Inl e, db') \<Rightarrow> (Inl e, db')
            | (Inr ok, db') \<Rightarrow> (Inr (summary\<lparr>success := success summary + 1\<rparr>), db'))
         else
           (case mark_player_for_review db player_id of
              (Inl e, db') \<Rightarrow> (Inl e, db')
            | (Inr ok, db') \<Rightarrow>
                (Inr (summary\<lparr>needs_review := needs_review summary + 1,
                               failed := failed summary + 1\<rparr>), db')))"

fun process_players ::
  "(pystr \<Rightarrow> pystr) \<Rightarrow> (pystr \<Rightarrow> pystr) \<Rightarrow> (string \<times> scraper) list \<Rightarrow> int \<Rightarrow>
   pydict list \<Rightarrow> summary \<Rightarrow> connector \<Rightarrow> (exn + summary) \<times> connector" where
  "process_players lower unidecode scrapers today [] summary db = (Inr summary, db)"
| "process_players lower unidecode scrapers today (player # players) summary db =
     (case process_player lower unidecode scrapers today player summary db of
        (Inl e, db') \<Rightarrow> (Inl e, db')
      | (Inr summary', db') \<Rightarrow> process_players lower unidecode scrapers today players summary' db')"

definition process_all_american_players ::
  "(pystr \<Rightarrow> pystr) \<Rightarrow> (pystr \<Rightarrow> pystr) \<Rightarrow> (string \<times> scraper) list \<Rightarrow> int \<Rightarrow>
   connector option \<Rightarrow> (exn + report) \<times> connector option" where
  "process_all_american_players lower unidecode scrapers today db =
     (case db of
        None \<Rightarrow> (Inr NoDatabaseConnection, None)
      | Some d \<Rightarrow>
          (case get_players_needing_hometown_lookup d of
             (Inl e, d') \<Rightarrow> (Inl e, Some d')
           | (Inr players, d') \<Rightarrow>
               (case process_players lower unidecode scrapers today players
                       \<lparr>total = int (length players), success = 0, failed = 0, needs_review = 0\<rparr> d' of
                  (Inl e, d'') \<Rightarrow> (Inl e, Some d'')
                | (Inr summary, d'') \<Rightarrow> (Inr (Summary summary), Some d''))))"

section \<open>HTTP requests of the scrapers\<close>

text \<open>
  Log records: a level and the pieces of the formatted message (literal text and the
  values that the f-string interpolates).
\<close>

datatype level = DEBUG | INFO | WARNING | ERROR

datatype fragment =
    Lit string
  | Str pystr
  | Val pyval
  | Num real
  | Exc exn
  | Msgs "fragment list list"

type_synonym message = "fragment list"
type_synonym log = "(level \<times> message) list"

text \<open>
  What a scraper object carries from one request to the next
  (scrapers/base\_scraper.py): \<open>rate_limit\<close>, \<open>last_request_time\<close> and the records of
  its logger.  Two more fields record what the object does to the outside: the
  arguments of its \<open>time.sleep\<close> calls, and the HTTP requests that its session sends,
  each with the time at which it is sent.  Times are seconds, as real numbers.
\<close>

record scraper_state =
  rate_limit :: real
  last_request_time :: real
  log_records :: log
  sleeps :: "real list"
  wire :: "(real \<times> pystr) list"

text \<open>\<open>BaseScraper.__init__\<close>: the rate limit of the configuration, and time stamp 0.\<close>

definition new_scraper :: "real \<Rightarrow> scraper_state" where
  "new_scraper rate_limit_seconds =
     \<lparr>rate_limit = rate_limit_seconds, last_request_time = 0,
      log_records = [], sleeps = [], wire = []\<rparr>"

text \<open>
  \<open>_rate_limit_wait\<close>.  The clock is the environment: \<open>first_reading\<close> is what
  \<open>time.time()\<close> returns when \<open>elapsed\<close> is computed, \<open>second_reading\<close> what it
  returns when \<open>last_request_time\<close> is set.
\<close>

record timing =
  first_reading :: real
  second_reading :: real

definition rate_limit_wait :: "timing \<Rightarrow> scraper_state \<Rightarrow> scraper_state" where
  "rate_limit_wait tm st =
     (let elapsed = first_reading tm - last_request_time st;
          st = (if elapsed < rate_limit st
                then (let sleep_time = rate_limit st - elapsed
                      in st\<lparr>log_records := log_records st
                              @ [(DEBUG, [Lit ''Rate limiting: sleeping '', Num sleep_time, Lit ''s''])],
                            sleeps := sleeps st @ [sleep_time]\<rparr>)
                else st)
      in st\<lparr>last_request_time := second_reading tm\<rparr>)"

text \<open>
  The \<open>requests\<close> session is the environment too.  With the retry adapter that
  \<open>__init__\<close> mounts (\<open>Retry(total=3, backoff_factor=1, status_forcelist=[429, 500,
  502, 503, 504])\<close>), one call of \<open>session.get\<close> or \<open>session.post\<close> sends the request,
  sends it again after such a status, and in the end returns a response or raises.
  \<open>attempts\<close> are the moments at which it sends, in seconds after the call;
  \<open>outcome\<close> is what the call returns or raises.  A \<open>requests\<close> exception is
  \<open>RequestException\<close> with its kind; \<open>raise_for_status\<close> raises \<open>HTTPError\<close> for a
  4xx or 5xx status.
\<close>

record response =
  status_code :: int
  body :: pystr

record exchange =
  outcome :: "exn + response"
  attempts :: "real list"

record session =
  session_get :: "pystr \<Rightarrow> pydict option \<Rightarrow> exchange"
  session_post :: "pystr \<Rightarrow> pydict option \<Rightarrow> pydict option \<Rightarrow> exchange"

definition raise_for_status :: "response \<Rightarrow> exn + unit" where
  "raise_for_status r =
     (if 400 \<le> status_code r \<and> status_code r < 600
      then Inl (RequestException (HTTPError (status_code r)))
      else Inr ())"

text \<open>The requests that one call of the session puts on the wire, when it is called at
  time \<open>t\<close>.\<close>

definition sent_at :: "real \<Rightarrow> pystr \<Rightarrow> exchange \<Rightarrow> (real \<times> pystr) list" where
  "sent_at t url ex = map (\<lambda>delay. (t + delay, url)) (attempts ex)"

text \<open>
  \<open>BaseScraper._get\<close>: \<open>_rate_limit_wait\<close>, then the \<open>try\<close> block (\<open>get_body\<close>),
  whose \<open>except requests.RequestException\<close> clause catches exactly the
  \<open>RequestException\<close> values.  The session is called right after the time stamp is
  taken.
\<close>

definition get_body :: "session \<Rightarrow> pystr \<Rightarrow> pydict option \<Rightarrow> exn + response" where
  "get_body s url params =
     (case outcome (session_get s url params) of
        Inl e \<Rightarrow> Inl e
      | Inr response \<Rightarrow>
          (case raise_for_status response of
             Inl e \<Rightarrow> Inl e
           | Inr u \<Rightarrow> Inr response))"

definition scraper_get ::
  "session \<Rightarrow> timing \<Rightarrow> pystr \<Rightarrow> pydict option \<Rightarrow> scraper_state \<Rightarrow>
   (exn + response option) \<times> scraper_state" where
  "scraper_get s tm url params st =
     (let st = rate_limit_wait tm st;
          st = st\<lparr>wire := wire st @ sent_at (last_request_time st) url (session_get s url params)\<rparr>
      in case get_body s url params of
           Inr response \<Rightarrow>
             (Inr (Some response),
              st\<lparr>log_records := log_records st
                 @ [(DEBUG, [Lit ''GET '', Str url, Lit '' -> '', Val (PInt (status_code response))])]\<rparr>)
         | Inl (RequestException e) \<Rightarrow>
             (Inr None,
              st\<lparr>log_records := log_records st
                 @ [(ERROR, [Lit ''Request failed: '', Str url, Lit '' - '',
                             Exc (RequestException e)])]\<rparr>)
         | Inl e \<Rightarrow> (Inl e, st))"

text \<open>\<open>BaseScraper._post\<close>\<close>

definition post_body :: "session \<Rightarrow> pystr \<Rightarrow> pydict option \<Rightarrow> pydict option \<Rightarrow> exn + response" where
  "post_body s url data json_data =
     (case outcome (session_post s url data json_data) of
        Inl e \<Rightarrow> Inl e
      | Inr response \<Rightarrow>
          (case raise_for_status response of
             Inl e \<Rightarrow> Inl e
           | Inr u \<Rightarrow> Inr response))"

definition scraper_post ::
  "session \<Rightarrow> timing \<Rightarrow> pystr \<Rightarrow> pydict option \<Rightarrow> pydict option \<Rightarrow> scraper_state \<Rightarrow>
   (exn + response option) \<times> scraper_state" where
  "scraper_post s tm url data json_data st =
     (let st = rate_limit_wait tm st;
          st = st\<lparr>wire := wire st
                   @ sent_at (last_request_time st) url (session_post s url data json_data)\<rparr>
      in case post_body s url data json_data of
           Inr response \<Rightarrow>
             (Inr (Some response),
              st\<lparr>log_records := log_records st
                 @ [(DEBUG, [Lit ''POST '', Str url, Lit '' -> '', Val (PInt (status_code response))])]\<rparr>)
         | Inl (RequestException e) \<Rightarrow>
             (Inr None,
              st\<lparr>log_records := log_records st
                 @ [(ERROR, [Lit ''POST request failed: '', Str url, Lit '' - '',
                             Exc (RequestException e)])]\<rparr>)
         | Inl e \<Rightarrow> (Inl e, st))"

text \<open>A request fails when the session raises a \<open>requests\<close> exception or the response has
  a 4xx or 5xx status.\<close>

definition request_failed :: "exn + response \<Rightarrow> bool" where
  "request_failed returned =
     (case returned of
        Inl (RequestException e) \<Rightarrow> True
      | Inl e \<Rightarrow> False
      | Inr response \<Rightarrow> 400 \<le> status_code response \<and> status_code response < 600)"

definition request_succeeded :: "exn + response \<Rightarrow> bool" where
  "request_succeeded returned =
     (case returned of
        Inl e \<Rightarrow> False
      | Inr response \<Rightarrow> \<not> (400 \<le> status_code response \<and> status_code response < 600))"

definition is_request_exception :: "exn + 'a \<Rightarrow> bool" where
  "is_request_exception r = (case r of Inl (RequestException e) \<Rightarrow> True | _ \<Rightarrow> False)"

text \<open>
  The failure is logged: after the records of the rate limiter (none, or its one
  \<open>DEBUG\<close> record about sleeping) the request appends exactly one record, an
  \<open>ERROR\<close> record.
\<close>

definition logged_error :: "log \<Rightarrow> log \<Rightarrow> bool" where
  "logged_error before after =
     (length after = Suc (length before) \<and> take (length before) after = before
      \<and> fst (last after) = ERROR)"

definition rate_limiter_log :: "log \<Rightarrow> log \<Rightarrow> bool" where
  "rate_limiter_log before after =
     (after = before \<or>
      (length after = Suc (length before) \<and> take (length before) after = before
       \<and> fst (last after) = DEBUG))"

subsection \<open>Rate limiting\<close>

text \<open>
  The remaining difference: the rate limit minus the time since the last request.  The
  clock keeps time during a wait when its second reading is not earlier than the first
  and, if the method sleeps, not earlier than the first plus the time it asks to sleep.
\<close>

definition remaining :: "timing \<Rightarrow> scraper_state \<Rightarrow> real" where
  "remaining tm st = rate_limit st - (first_reading tm - last_request_time st)"

definition clock_keeps_time :: "timing \<Rightarrow> scraper_state \<Rightarrow> bool" where
  "clock_keeps_time tm st = (first_reading tm + max 0 (remaining tm st) \<le> second_reading tm)"

text \<open>A sequence of moments in which each is at least \<open>gap\<close> after the one before.\<close>

fun spaced :: "real \<Rightarrow> real list \<Rightarrow> bool" where
  "spaced gap [] = True"
| "spaced gap [t] = True"
| "spaced gap (t # u # ts) = (t + gap \<le> u \<and> spaced gap (u # ts))"

text \<open>
  A sequence of \<open>_get\<close> and \<open>_post\<close> calls of one scraper object, each with the clock
  readings of its wait; the time stamps the calls record; and the clock keeping time
  during every one of them.
\<close>

datatype call =
    Get pystr "pydict option"
  | Post pystr "pydict option" "pydict option"

fun perform :: "session \<Rightarrow> timing \<Rightarrow> call \<Rightarrow> scraper_state \<Rightarrow> scraper_state" where
  "perform s tm (Get url params) st = snd (scraper_get s tm url params st)"
| "perform s tm (Post url data json_data) st = snd (scraper_post s tm url data json_data st)"

fun time_stamps :: "session \<Rightarrow> (timing \<times> call) list \<Rightarrow> scraper_state \<Rightarrow> real list" where
  "time_stamps s [] st = []"
| "time_stamps s ((tm, c) # calls) st =
     last_request_time (perform s tm c st) # time_stamps s calls (perform s tm c st)"

fun clock_keeps_time_during :: "session \<Rightarrow> (timing \<times> call) list \<Rightarrow> scraper_state \<Rightarrow> bool" where
  "clock_keeps_time_during s [] st = True"
| "clock_keeps_time_during s ((tm, c) # calls) st =
     (clock_keeps_time tm st \<and> clock_keeps_time_during s calls (perform s tm c st))"

section \<open>Validation of scraped data\<close>

text \<open>
  \<open>DataValidator\<close> (services/data\_validator.py).  What the validators take from
  outside the repository's sources is a parameter: the list \<open>US_STATES\<close> of
  \<open>config.settings\<close>, whether \<open>datetime.strptime\<close> accepts a string for a format, and
  \<open>str.isdigit\<close> and \<open>int\<close> on strings (\<open>None\<close> for \<open>ValueError\<close>).
\<close>

record externals =
  us_states :: "pystr list"
  strptime_ok :: "pystr \<Rightarrow> string \<Rightarrow> bool"
  str_isdigit :: "pystr \<Rightarrow> bool"
  str_int :: "pystr \<Rightarrow> int option"

text \<open>Sequencing of statements that may raise.\<close>

definition and_then :: "exn + 'a \<Rightarrow> ('a \<Rightarrow> exn + 'b) \<Rightarrow> exn + 'b" where
  "and_then m f = (case m of Inl e \<Rightarrow> Inl e | Inr x \<Rightarrow> f x)"

text \<open>
  \<open>lo <= v <= hi\<close> for integer bounds: an integer or a boolean is compared, any other
  value raises \<open>TypeError\<close>.
\<close>

definition between :: "int \<Rightarrow> pyval \<Rightarrow> int \<Rightarrow> exn + bool" where
  "between lo v hi =
     (case v of
        PInt n \<Rightarrow> Inr (lo \<le> n \<and> n \<le> hi)
      | PBool b \<Rightarrow> Inr (lo \<le> (if b then 1 else 0) \<and> (if b then 1 else 0) \<le> hi)
      | _ \<Rightarrow> Inl TypeError)"

text \<open>\<open>a > b\<close>: numbers by value, strings by code points, dates by day; \<open>TypeError\<close>
  for every other pair.\<close>

fun str_less :: "pystr \<Rightarrow> pystr \<Rightarrow> bool" where
  "str_less [] [] = False"
| "str_less [] (y # ys) = True"
| "str_less (x # xs) [] = False"
| "str_less (x # xs) (y # ys) = (x < y \<or> (x = y \<and> str_less xs ys))"

definition as_number :: "pyval \<Rightarrow> int option" where
  "as_number v =
     (case v of PInt n \<Rightarrow> Some n | PBool b \<Rightarrow> Some (if b then 1 else 0) | _ \<Rightarrow> None)"

definition greater :: "pyval \<Rightarrow> pyval \<Rightarrow> exn + bool" where
  "greater a b =
     (case (as_number a, as_number b) of
        (Some m, Some n) \<Rightarrow> Inr (n < m)
      | _ \<Rightarrow>
          (case (a, b) of
             (PStr s, PStr t) \<Rightarrow> Inr (str_less t s)
           | (PDate d, PDate e) \<Rightarrow> Inr (e < d)
           | _ \<Rightarrow> Inl TypeError))"

text \<open>\<open>v in US_STATES\<close>\<close>

definition in_us_states :: "externals \<Rightarrow> pyval \<Rightarrow> bool" where
  "in_us_states ext v = (case v of PStr s \<Rightarrow> s \<in> set (us_states ext) | _ \<Rightarrow> False)"

text \<open>
  \<open>_is_valid_date\<close>: a date object is valid; a string is valid when its first ten
  characters parse in one of the four formats; the bare \<open>except\<close> clauses catch
  everything, so that the method never raises.
\<close>

definition date_formats :: "string list" where
  "date_formats = [''%Y-%m-%d'', ''%Y/%m/%d'', ''%d-%m-%Y'', ''%d/%m/%Y'']"

definition is_valid_date :: "externals \<Rightarrow> pyval \<Rightarrow> bool" where
  "is_valid_date ext date_value =
     (case date_value of
        PDate d \<Rightarrow> True
      | PStr s \<Rightarrow> list_ex (strptime_ok ext (take 10 s)) date_formats
      | _ \<Rightarrow> False)"

text \<open>\<open>if cond: errors.append(msg)\<close>\<close>

definition append_if :: "bool \<Rightarrow> message \<Rightarrow> message list \<Rightarrow> message list" where
  "append_if cond msg errors = (if cond then errors @ [msg] else errors)"

text \<open>
  \<open>if d.get(key) and not self._is_valid_id(d[key]): errors.append(...)\<close>, which the
  team and the player validator share.
\<close>

definition check_id_format :: "pydict \<Rightarrow> string \<Rightarrow> string \<Rightarrow> message list \<Rightarrow> exn + message list" where
  "check_id_format d key text errors =
     (if truthy (get d key)
      then and_then (is_valid_id (get d key))
             (\<lambda>valid. Inr (append_if (\<not> valid) [Lit text, Val (get d key)] errors))
      else Inr errors)"

text \<open>
  \<open>if d.get(key) is not None: if not lo <= d[key] <= hi: errors.append(...)\<close> and the
  variant that tests truthiness, \<open>if d.get(key): ...\<close>.
\<close>

definition check_range_not_none ::
  "pydict \<Rightarrow> string \<Rightarrow> int \<Rightarrow> int \<Rightarrow> string \<Rightarrow> message list \<Rightarrow> exn + message list" where
  "check_range_not_none d key lo hi text errors =
     (if get d key \<noteq> PNone
      then and_then (between lo (get d key) hi)
             (\<lambda>ok. Inr (append_if (\<not> ok) [Lit text, Val (get d key)] errors))
      else Inr errors)"

definition check_range_truthy ::
  "pydict \<Rightarrow> string \<Rightarrow> int \<Rightarrow> int \<Rightarrow> string \<Rightarrow> message list \<Rightarrow> exn + message list" where
  "check_range_truthy d key lo hi text errors =
     (if truthy (get d key)
      then and_then (between lo (get d key) hi)
             (\<lambda>ok. Inr (append_if (\<not> ok) [Lit text, Val (get d key)] errors))
      else Inr errors)"

text \<open>\<open>validate_team\<close>\<close>

definition validate_team :: "externals \<Rightarrow> pydict \<Rightarrow> exn + (bool \<times> message list)" where
  "validate_team ext team =
     (let errors = [];
          errors = append_if (\<not> truthy (get team ''team_id'')) [Lit ''Missing team_id''] errors;
          errors = append_if (\<not> truthy (get team ''team_name'')) [Lit ''Missing team_name''] errors;
          errors = append_if (\<not> truthy (get team ''league_id'')) [Lit ''Missing league_id''] errors
      in and_then (check_id_format team ''team_id'' ''Invalid team_id format: '' errors)
           (\<lambda>errors. Inr (length errors = 0, errors)))"

text \<open>
  \<open>validate_player\<close>.  The jersey number: \<open>jersey.isdigit()\<close> raises
  \<open>AttributeError\<close> on a value that is not a string, and \<open>int(jersey)\<close> raises
  \<open>ValueError\<close> on a string that it cannot read.
\<close>

definition jersey_in_range :: "externals \<Rightarrow> pyval \<Rightarrow> exn + bool" where
  "jersey_in_range ext jersey =
     (case jersey of
        PStr s \<Rightarrow>
          if str_isdigit ext s
          then (case str_int ext s of
                  None \<Rightarrow> Inl ValueError
                | Some n \<Rightarrow> Inr (0 \<le> n \<and> n \<le> 99))
          else Inr False
      | _ \<Rightarrow> Inl AttributeError)"

definition check_jersey :: "externals \<Rightarrow> pydict \<Rightarrow> message list \<Rightarrow> exn + message list" where
  "check_jersey ext player errors =
     (if truthy (get player ''jersey_number'')
      then (let jersey = get player ''jersey_number''
            in and_then (jersey_in_range ext jersey)
                 (\<lambda>ok. Inr (append_if (\<not> ok \<and> jersey \<noteq> PStr (lit ''00''))
                                [Lit ''Invalid jersey_number: '', Val jersey] errors)))
      else Inr errors)"

definition validate_player :: "externals \<Rightarrow> pydict \<Rightarrow> exn + (bool \<times> message list)" where
  "validate_player ext player =
     (let errors = [];
          errors = append_if (\<not> truthy (get player ''player_id'')) [Lit ''Missing player_id''] errors;
          errors = append_if (\<not> truthy (get player ''full_name'')) [Lit ''Missing full_name''] errors
      in and_then (check_id_format player ''player_id'' ''Invalid player_id format: '' errors)
        (\<lambda>errors.
           let errors = append_if (truthy (get player ''birth_date'')
                                   \<and> \<not> is_valid_date ext (get player ''birth_date''))
                          [Lit ''Invalid birth_date: '', Val (get player ''birth_date'')] errors
           in and_then (check_range_truthy player ''height_cm'' 150 250 ''Suspicious height_cm: '' errors)
        (\<lambda>errors.
              and_then (check_range_truthy player ''weight_kg'' 50 200 ''Suspicious weight_kg: '' errors)
        (\<lambda>errors.
              and_then (check_jersey ext player errors)
        (\<lambda>errors.
           let errors = append_if (truthy (get player ''is_american'')
                                   \<and> truthy (get player ''hometown_state'')
                                   \<and> \<not> in_us_states ext (get player ''hometown_state''))
                          [Lit ''Invalid hometown_state for American: '',
                           Val (get player ''hometown_state'')] errors
           in Inr (length errors = 0, errors))))))"

text \<open>\<open>validate_game\<close>\<close>

definition validate_game :: "externals \<Rightarrow> pydict \<Rightarrow> exn + (bool \<times> message list)" where
  "validate_game ext game =
     (let errors = [];
          errors = append_if (\<not> truthy (get game ''game_id'')) [Lit ''Missing game_id''] errors;
          errors = append_if (\<not> truthy (get game ''game_date'')) [Lit ''Missing game_date''] errors;
          errors = append_if (truthy (get game ''game_date'')
                              \<and> \<not> is_valid_date ext (get game ''game_date''))
                     [Lit ''Invalid game_date: '', Val (get game ''game_date'')] errors
      in if get game ''status'' = PStr (lit ''completed'') then
           (let errors = append_if (get game ''home_score'' = PNone)
                           [Lit ''Completed game missing home_score''] errors;
                errors = append_if (get game ''away_score'' = PNone)
                           [Lit ''Completed game missing away_score''] errors
            in and_then (check_range_not_none game ''home_score'' 0 200 ''Suspicious home_score: '' errors)
              (\<lambda>errors.
                 and_then (check_range_not_none game ''away_score'' 0 200 ''Suspicious away_score: '' errors)
              (\<lambda>errors. Inr (length errors = 0, errors))))
         else Inr (length errors = 0, errors))"

text \<open>\<open>validate_game_stat\<close>\<close>

definition check_made_attempted ::
  "pydict \<Rightarrow> string \<Rightarrow> string \<Rightarrow> message \<Rightarrow> message list \<Rightarrow> exn + message list" where
  "check_made_attempted stat made attempted msg errors =
     (if get stat made \<noteq> PNone \<and> get stat attempted \<noteq> PNone
      then and_then (greater (get stat made) (get stat attempted))
             (\<lambda>more. Inr (append_if more msg errors))
      else Inr errors)"

definition validate_game_stat :: "externals \<Rightarrow> pydict \<Rightarrow> exn + (bool \<times> message list)" where
  "validate_game_stat ext stat =
     (let errors = [];
          errors = append_if (\<not> truthy (get stat ''player_id'')) [Lit ''Missing player_id''] errors;
          errors = append_if (\<not> truthy (get stat ''game_id'')) [Lit ''Missing game_id''] errors
      in if truthy (get stat ''did_not_play'') then Inr (length errors = 0, errors)
         else
           and_then (check_range_not_none stat ''points'' 0 80 ''Suspicious points: '' errors)
           (\<lambda>errors.
              and_then (check_range_not_none stat ''rebounds_total'' 0 35 ''Suspicious rebounds: '' errors)
           (\<lambda>errors.
              and_then (check_range_not_none stat ''assists'' 0 25 ''Suspicious assists: '' errors)
           (\<lambda>errors.
              and_then (check_made_attempted stat ''fg_made'' ''fg_attempted''
                          [Lit ''FG made ('', Val (get stat ''fg_made''), Lit '') > attempted ('',
                           Val (get stat ''fg_attempted''), Lit '')''] errors)
           (\<lambda>errors.
              and_then (check_made_attempted stat ''three_pt_made'' ''three_pt_attempted''
                          [Lit ''3PT made > attempted''] errors)
           (\<lambda>errors.
              and_then (check_made_attempted stat ''ft_made'' ''ft_attempted''
                          [Lit ''FT made > attempted''] errors)
           (\<lambda>errors. Inr (length errors = 0, errors))))))))"

text \<open>
  \<open>validate_and_clean_batch\<close>: the dictionary of validators, the \<open>ValueError\<close> for an
  item type that is not a key of it, and the loop over the items.  An entry of
  \<open>invalid_items\<close> is the pair of the item and its errors.
\<close>

type_synonym validator = "pydict \<Rightarrow> exn + (bool \<times> message list)"

definition validators :: "externals \<Rightarrow> pystr \<Rightarrow> validator option" where
  "validators ext item_type =
     (if item_type = lit ''team'' then Some (validate_team ext)
      else if item_type = lit ''player'' then Some (validate_player ext)
      else if item_type = lit ''game'' then Some (validate_game ext)
      else if item_type = lit ''game_stat'' then Some (validate_game_stat ext)
      else None)"

record batch =
  valid_items :: "pydict list"
  invalid_items :: "(pydict \<times> message list) list"
  logged :: log

definition invalid_warning :: "pystr \<Rightarrow> message list \<Rightarrow> level \<times> message" where
  "invalid_warning item_type errors =
     (WARNING, [Lit ''Invalid '', Str item_type, Lit '': '', Msgs errors])"

fun validate_items :: "validator \<Rightarrow> pystr \<Rightarrow> pydict list \<Rightarrow> batch \<Rightarrow> exn + batch" where
  "validate_items validator item_type [] b = Inr b"
| "validate_items validator item_type (item # items) b =
     (case validator item of
        Inl e \<Rightarrow> Inl e
      | Inr (is_valid, errors) \<Rightarrow>
          if is_valid
          then validate_items validator item_type items (b\<lparr>valid_items := valid_items b @ [item]\<rparr>)
          else validate_items validator item_type items
                 (b\<lparr>invalid_items := invalid_items b @ [(item, errors)],
                    logged := logged b @ [invalid_warning item_type errors]\<rparr>))"

definition validate_and_clean_batch ::
  "externals \<Rightarrow> pydict list \<Rightarrow> pystr \<Rightarrow> log \<Rightarrow> exn + batch" where
  "validate_and_clean_batch ext items item_type lg =
     (case validators ext item_type of
        None \<Rightarrow> Inl ValueError
      | Some validator \<Rightarrow>
          validate_items validator item_type items
            \<lparr>valid_items = [], invalid_items = [], logged = lg\<rparr>)"

text \<open>What a validator that returns says about an item.\<close>

definition passes :: "validator \<Rightarrow> pydict \<Rightarrow> bool" where
  "passes validator item = (case validator item of Inr (is_valid, errors) \<Rightarrow> is_valid | Inl e \<Rightarrow> False)"

definition errors_of :: "validator \<Rightarrow> pydict \<Rightarrow> message list" where
  "errors_of validator item = (case validator item of Inr (is_valid, errors) \<Rightarrow> errors | Inl e \<Rightarrow> [])"

definition returns :: "validator \<Rightarrow> pydict \<Rightarrow> bool" where
  "returns validator item = (case validator item of Inr r \<Rightarrow> True | Inl e \<Rightarrow> False)"

text \<open>
  When a validator returns: the field types that its comparisons and method calls
  accept.  \<open>finishes\<close> says that a computation returns instead of raising.
\<close>

definition number_or_none :: "pyval \<Rightarrow> bool" where
  "number_or_none v = (v = PNone \<or> as_number v \<noteq> None)"

definition comparable :: "pyval \<Rightarrow> pyval \<Rightarrow> bool" where
  "comparable a b =
     (a = PNone \<or> b = PNone \<or> (case greater a b of Inr r \<Rightarrow> True | Inl e \<Rightarrow> False))"

definition is_text :: "pyval \<Rightarrow> bool" where
  "is_text v = (case v of PStr s \<Rightarrow> True | _ \<Rightarrow> False)"

definition readable_jersey :: "externals \<Rightarrow> pyval \<Rightarrow> bool" where
  "readable_jersey ext v =
     (case v of PStr s \<Rightarrow> \<not> str_isdigit ext s \<or> str_int ext s \<noteq> None | _ \<Rightarrow> False)"

definition finishes :: "exn + 'a \<Rightarrow> bool" where
  "finishes r = (case r of Inr x \<Rightarrow> True | Inl e \<Rightarrow> False)"

section \<open>Auxiliary definitions and example data\<close>

text \<open>The same connector on a server that answers \<open>execute\<close> by \<open>f\<close>.\<close>

definition with_execute ::
  "(sql_call list \<Rightarrow> sql_call \<Rightarrow> exn + int option) \<Rightarrow> connector \<Rightarrow> connector" where
  "with_execute f d = d\<lparr>server := (server d)\<lparr>on_execute := f\<rparr>\<rparr>"

text \<open>A player, the scrapers and the sessions of the examples.\<close>

definition example_name :: "pystr option" where
  "example_name = Some (lit ''Bo Lee'')"

definition no_page :: scraper where
  "no_page name = Returns None"

definition parser_crash :: scraper where
  "parser_crash name = Raises AttributeError"

definition college_page :: scraper where
  "college_page name =
     Returns (Some [(''college'', PStr (lit ''Duke'')), (''lookup_successful'', PBool False)])"

definition texas_result :: pydict where
  "texas_result =
     [(''hometown_state'', PStr (lit ''Texas'')), (''college'', PStr (lit ''Rice'')),
      (''lookup_successful'', PBool True)]"

definition texas_page :: scraper where
  "texas_page name = Returns (Some texas_result)"

text \<open>A server that stores nothing and returns no row.\<close>

definition empty_server :: mysql where
  "empty_server =
     \<lparr>on_execute = (\<lambda>history call. Inr (Some 1)),
      on_fetch_one = (\<lambda>history call. Inr None),
      on_fetch_all = (\<lambda>history call. Inr [])\<rparr>"

text \<open>A server whose cache table holds a successful entry.\<close>

definition cached_server :: mysql where
  "cached_server =
     \<lparr>on_execute = (\<lambda>history call. Inr (Some 1)),
      on_fetch_one = (\<lambda>history call.
         Inr (Some [(''player_name_search'', PStr (lit ''bo_lee'')),
                    (''lookup_source'', PStr (lit ''wikipedia'')),
                    (''lookup_successful'', PInt 1),
                    (''hometown_state'', PStr (lit ''Texas''))])),
      on_fetch_all = (\<lambda>history call. Inr [])\<rparr>"

definition example_player :: pydict where
  "example_player = [(''player_id'', PStr (lit ''EUROLEAGUE_bo_lee'')), (''full_name'', PStr (lit ''Bo Lee''))]"

text \<open>\<open>str.lower\<close> and \<open>unidecode\<close> as they act on ASCII names, for the examples.\<close>

definition ascii_lower :: "pystr \<Rightarrow> pystr" where
  "ascii_lower s = map (\<lambda>c. if is_upper_az c then c + 32 else c) s"

definition ascii_only :: "pystr \<Rightarrow> pystr" where
  "ascii_only s = filter (\<lambda>c. c < 128) s"

text \<open>An alphanumeric league identifier consists of ASCII letters and digits.\<close>

definition is_alnum :: "codepoint \<Rightarrow> bool" where
  "is_alnum c = (is_upper_az c \<or> is_lower_az c \<or> is_digit09 c)"

definition lebron :: "pystr option" where
  "lebron = Some (lit ''LeBron  James Jr.'')"

definition flaky_session :: session where
  "flaky_session =
     \<lparr>session_get = (\<lambda>url params.
         if url = lit ''down'' then \<lparr>outcome = Inl (RequestException Timeout), attempts = [0]\<rparr>
         else if url = lit ''missing''
         then \<lparr>outcome = Inr \<lparr>status_code = 404, body = []\<rparr>, attempts = [0]\<rparr>
         else \<lparr>outcome = Inr \<lparr>status_code = 200, body = lit ''ok''\<rparr>, attempts = [0]\<rparr>),
      session_post = (\<lambda>url data json_data.
         if url = lit ''down'' then \<lparr>outcome = Inl (RequestException ConnectionError), attempts = [0]\<rparr>
         else if url = lit ''missing''
         then \<lparr>outcome = Inr \<lparr>status_code = 503, body = []\<rparr>, attempts = [0, 1, 3, 7]\<rparr>
         else \<lparr>outcome = Inr \<lparr>status_code = 201, body = lit ''ok''\<rparr>, attempts = [0]\<rparr>)\<rparr>"

text \<open>
  A session whose server answers 503 twice and then 200: the adapter sends the request
  three times, the second time one second and the third time three seconds after the
  call (the source's comment on \<open>backoff_factor\<close>: wait 1, 2, 4 seconds between
  retries).  And the clock readings of the examples.
\<close>

definition retrying_session :: session where
  "retrying_session =
     \<lparr>session_get = (\<lambda>url params.
         \<lparr>outcome = Inr \<lparr>status_code = 200, body = lit ''ok''\<rparr>, attempts = [0, 1, 3]\<rparr>),
      session_post = (\<lambda>url data json_data.
         \<lparr>outcome = Inr \<lparr>status_code = 200, body = lit ''ok''\<rparr>, attempts = [0, 1, 3]\<rparr>)\<rparr>"

definition at_100 :: timing where
  "at_100 = \<lparr>first_reading = 100, second_reading = 100\<rparr>"

definition half_a_second_later :: timing where
  "half_a_second_later = \<lparr>first_reading = 100.5, second_reading = 102\<rparr>"

text \<open>\<open>int\<close> on ASCII digits, and the externals of the examples: two states, one date
  string that parses, \<open>str.isdigit\<close> on ASCII.\<close>

definition decimal :: "pystr \<Rightarrow> int option" where
  "decimal s =
     (if s \<noteq> [] \<and> list_all is_digit09 s
      then Some (foldl (\<lambda>n c. 10 * n + (int c - 48)) 0 s)
      else None)"

definition example_externals :: externals where
  "example_externals =
     \<lparr>us_states = [lit ''Texas'', lit ''Illinois''],
      strptime_ok = (\<lambda>s fmt. s = lit ''2024-01-05'' \<and> fmt = ''%Y-%m-%d''),
      str_isdigit = (\<lambda>s. s \<noteq> [] \<and> list_all is_digit09 s),
      str_int = decimal\<rparr>"

definition real_madrid :: pydict where
  "real_madrid =
     [(''team_id'', PStr (lit ''EUROLEAGUE_real_madrid'')),
      (''team_name'', PStr (lit ''Real Madrid'')),
      (''league_id'', PStr (lit ''EUROLEAGUE''))]"

definition nameless_team :: pydict where
  "nameless_team = [(''team_id'', PStr (lit ''bad id'')), (''team_name'', PStr [])]"

definition game_with_text_score :: pydict where
  "game_with_text_score =
     [(''game_id'', PStr (lit ''G1'')),
      (''game_date'', PStr (lit ''2024-01-05'')),
      (''status'', PStr (lit ''completed'')),
      (''home_score'', PStr (lit ''85'')),
      (''away_score'', PInt 80)]"

section \<open>Properties\<close>

subsection \<open>Name normalisation\<close>

lemma lit_simps: "lit [] = []" "lit (c # cs) = of_char c # lit cs"
  by (simp_all add: lit_def)

lemma sub_spaces_replace:
  "replace_space_underscore (sub_spaces [space] s) = sub_spaces [underscore] s"
proof (induction "[space]" s rule: sub_spaces.induct)
  case 1
  show ?case by (simp add: replace_space_underscore_def)
next
  case (2 c cs)
  show ?case
  proof (cases "is_space c")
    case True
    with 2 show ?thesis by (simp add: replace_space_underscore_def)
  next
    case False
    then have "c \<noteq> space" by (auto simp: is_space_def space_def)
    with False 2 show ?thesis by (simp add: replace_space_underscore_def)
  qed
qed

text \<open>
  Claim C9.  \<open>NameNormalizer.normalize\<close> and \<open>BaseScraper.normalize_name\<close> are the
  same function, on \<open>None\<close>, on the empty string and on every other string.
\<close>

theorem normalize_eq_normalize_name:
  "normalize lower unidecode name = normalize_name lower unidecode name"
  by (simp add: normalize_def normalize_name_def sub_spaces_replace Let_def split: option.split)

lemma sub_spaces_chars:
  "list_all (\<lambda>c. is_lower_az c \<or> is_digit09 c \<or> is_space c) s \<Longrightarrow>
   list_all is_norm_char (sub_spaces [underscore] s)"
proof (induction "[underscore]" s rule: sub_spaces.induct)
  case 1
  show ?case by simp
next
  case (2 c cs)
  have rest: "list_all (\<lambda>c. is_lower_az c \<or> is_digit09 c \<or> is_space c) (dropWhile is_space cs)"
    using "2.prems" by (auto simp: list_all_iff dest: set_dropWhileD)
  show ?case
  proof (cases "is_space c")
    case True
    with 2 rest show ?thesis by (simp add: is_norm_char_def)
  next
    case False
    with 2 show ?thesis by (auto simp: is_norm_char_def)
  qed
qed

lemma normalize_name_chars: "list_all is_norm_char (normalize_name lower unidecode name)"
  by (auto simp: normalize_name_def Let_def sub_non_alnum_space_def list_all_iff
      intro!: sub_spaces_chars[unfolded list_all_iff, rule_format] split: option.split)

lemma norm_char_id_char: "is_norm_char c \<Longrightarrow> is_id_char c"
  by (auto simp: is_norm_char_def is_id_char_def)

lemma alnum_id_char: "is_alnum c \<Longrightarrow> is_id_char c"
  by (auto simp: is_alnum_def is_id_char_def)

lemma is_valid_id_chars:
  "s \<noteq> [] \<Longrightarrow> list_all is_id_char s \<Longrightarrow> is_valid_id (PStr s) = Inr True"
  by (simp add: is_valid_id_def match_id_pattern_def)

lemma prefixed_id_valid:
  assumes "list_all is_alnum league_id"
  shows "is_valid_id (PStr (league_id @ [underscore] @ normalize_name lower unidecode name)) = Inr True"
proof -
  have "list_all is_id_char (normalize_name lower unidecode name)"
    using normalize_name_chars[of lower unidecode name]
    by (auto simp: list_all_iff intro: norm_char_id_char)
  moreover have "list_all is_id_char league_id"
    using assms by (auto simp: list_all_iff intro: alnum_id_char)
  moreover have "is_id_char underscore" by (simp add: is_id_char_def)
  ultimately have "list_all is_id_char (league_id @ [underscore] @ normalize_name lower unidecode name)"
    by simp
  then show ?thesis by (intro is_valid_id_chars) simp_all
qed

text \<open>
  Claim C10.  \<open>normalize_name\<close> returns only lowercase ASCII letters, digits and
  underscores; a non-empty normalised name satisfies \<open>_is_valid_id\<close>, and so does every
  player or team identifier built from an alphanumeric league identifier.
\<close>

theorem normalized_names_are_valid_ids:
  "list_all is_norm_char (normalize_name lower unidecode name)
   \<and> (normalize_name lower unidecode name \<noteq> [] \<longrightarrow>
        is_valid_id (PStr (normalize_name lower unidecode name)) = Inr True)
   \<and> (list_all is_alnum league_id \<longrightarrow>
        is_valid_id (PStr (normalize_player_id lower unidecode league_id name)) = Inr True
        \<and> is_valid_id (PStr (normalize_team_id lower unidecode league_id name)) = Inr True)"
proof -
  have chars: "list_all is_norm_char (normalize_name lower unidecode name)"
    by (rule normalize_name_chars)
  then have "list_all is_id_char (normalize_name lower unidecode name)"
    by (auto simp: list_all_iff intro: norm_char_id_char)
  then have plain: "normalize_name lower unidecode name \<noteq> [] \<longrightarrow>
        is_valid_id (PStr (normalize_name lower unidecode name)) = Inr True"
    by (simp add: is_valid_id_chars)
  have ids: "list_all is_alnum league_id \<longrightarrow>
        is_valid_id (PStr (normalize_player_id lower unidecode league_id name)) = Inr True
        \<and> is_valid_id (PStr (normalize_team_id lower unidecode league_id name)) = Inr True"
    using prefixed_id_valid[of league_id lower unidecode name]
    by (simp add: normalize_player_id_def normalize_team_id_def)
  from chars plain ids show ?thesis by blast
qed

lemma lebron_key: "normalize_name ascii_lower ascii_only lebron = lit ''lebron_james_jr''"
  by (simp add: normalize_name_def lebron_def lit_simps ascii_lower_def ascii_only_def strip_def
      sub_non_alnum_space_def is_space_def is_lower_az_def is_upper_az_def is_digit09_def underscore_def)

text \<open>
  The examples of the docstrings, for C10.
\<close>

theorem normalized_names_are_valid_ids_witness:
  "normalize_name ascii_lower ascii_only lebron = lit ''lebron_james_jr''
   \<and> is_valid_id (PStr (lit ''lebron_james_jr'')) = Inr True
   \<and> normalize_player_id ascii_lower ascii_only (lit ''EUROLEAGUE'') lebron = lit ''EUROLEAGUE_lebron_james_jr''
   \<and> is_valid_id (PStr (lit ''EUROLEAGUE_lebron_james_jr'')) = Inr True"
proof -
  have ne: "normalize_name ascii_lower ascii_only lebron \<noteq> []"
    by (simp add: lebron_key lit_simps)
  have league: "list_all is_alnum (lit ''EUROLEAGUE'')"
    by (simp add: lit_simps is_alnum_def is_upper_az_def)
  have pid: "normalize_player_id ascii_lower ascii_only (lit ''EUROLEAGUE'') lebron = lit ''EUROLEAGUE_lebron_james_jr''"
    by (simp add: normalize_player_id_def lebron_key lit_simps underscore_def)
  from normalized_names_are_valid_ids[of ascii_lower ascii_only lebron "lit ''EUROLEAGUE''"] ne league
  have "is_valid_id (PStr (normalize_name ascii_lower ascii_only lebron)) = Inr True"
    and "is_valid_id (PStr (normalize_player_id ascii_lower ascii_only (lit ''EUROLEAGUE'') lebron)) = Inr True"
    by blast+
  then show ?thesis using pid by (simp add: lebron_key)
qed

subsection \<open>Merging the results of the sources\<close>

lemma get_update: "get (AList.update k v d) k' = (if k' = k then v else get d k')"
  by (simp add: get_def update_conv')

lemma get_merge_field:
  "get (merge_field source key target) k =
     (if k = key \<and> \<not> truthy (get target k) \<and> truthy (get source k) then get source k
      else get target k)"
  by (auto simp: merge_field_def get_update)

lemma get_fold_merge_field:
  "get (fold (merge_field source) ks target) k =
     (if k \<in> set ks \<and> \<not> truthy (get target k) \<and> truthy (get source k) then get source k
      else get target k)"
proof (induction ks arbitrary: target)
  case Nil
  show ?case by simp
next
  case (Cons x xs)
  show ?case by (auto simp: Cons.IH get_merge_field)
qed

lemma source_not_merged: "''source'' \<notin> set fields_to_merge"
  by (simp add: fields_to_merge_def)

lemma get_merge_results:
  "k \<in> set fields_to_merge \<Longrightarrow>
   get (merge_results target source source_name) k =
     (if \<not> truthy (get target k) \<and> truthy (get source k) then get source k else get target k)"
  using source_not_merged
  by (auto simp: merge_results_def Let_def get_update get_fold_merge_field)

lemma get_merge_results_other:
  "k \<notin> set fields_to_merge \<Longrightarrow> k \<noteq> ''source'' \<Longrightarrow>
   get (merge_results target source source_name) k = get target k"
  by (auto simp: merge_results_def Let_def get_update get_fold_merge_field)

text \<open>
  Claim C2.  \<open>_merge_results\<close> does not overwrite: each of the eight merged fields
  that is non-empty in the target keeps its value, and a field changes only when it is
  empty in the target and non-empty in the source, to the source's value.
\<close>

theorem merge_results_no_overwrite:
  assumes "k \<in> set fields_to_merge"
  shows "(truthy (get target k) \<longrightarrow> get (merge_results target source source_name) k = get target k)
       \<and> (get (merge_results target source source_name) k \<noteq> get target k \<longrightarrow>
            \<not> truthy (get target k) \<and> truthy (get source k)
            \<and> get (merge_results target source source_name) k = get source k)"
  using assms by (simp add: get_merge_results)

text \<open>
  A merge for C2: the college of the earlier source stays, the missing high school is
  taken from the later source.
\<close>

theorem merge_results_no_overwrite_witness:
  "get (merge_results [(''college'', PStr (lit ''Duke'')), (''high_school'', PNone)]
          [(''college'', PStr (lit ''Rice'')), (''high_school'', PStr (lit ''Oak Hill''))]
          ''wikipedia'') ''college'' = PStr (lit ''Duke'')
   \<and> get (merge_results [(''college'', PStr (lit ''Duke'')), (''high_school'', PNone)]
          [(''college'', PStr (lit ''Rice'')), (''high_school'', PStr (lit ''Oak Hill''))]
          ''wikipedia'') ''high_school'' = PStr (lit ''Oak Hill'')"
proof -
  let ?target = "[(''college'', PStr (lit ''Duke'')), (''high_school'', PNone)]"
  let ?source = "[(''college'', PStr (lit ''Rice'')), (''high_school'', PStr (lit ''Oak Hill''))]"
  have c: "''college'' \<in> set fields_to_merge" and h: "''high_school'' \<in> set fields_to_merge"
    by (simp_all add: fields_to_merge_def)
  have t: "truthy (get ?target ''college'')" by (simp add: get_def lit_simps)
  have "get (merge_results ?target ?source ''wikipedia'') ''high_school'' \<noteq> get ?target ''high_school''"
    by (simp add: merge_results_def merge_field_def fields_to_merge_def get_def lit_simps)
  with merge_results_no_overwrite[OF h, of ?target ?source "''wikipedia''"]
  have "get (merge_results ?target ?source ''wikipedia'') ''high_school'' = get ?source ''high_school''"
    by blast
  moreover from merge_results_no_overwrite[OF c, of ?target ?source "''wikipedia''"] t
  have "get (merge_results ?target ?source ''wikipedia'') ''college'' = get ?target ''college''"
    by blast
  ultimately show ?thesis by (simp add: get_def)
qed

lemma has_required_data_merge_results:
  "has_required_data (merge_results acc d sn) = (has_required_data acc \<or> has_required_data d)"
  by (auto simp: has_required_data_def get_merge_results fields_to_merge_def)

lemma has_required_data_Nil: "\<not> has_required_data []"
  by (simp add: has_required_data_def get_def)

lemma has_required_data_merge_outcome:
  "has_required_data (merge_outcome name acc src) =
     (has_required_data acc \<or> yields_required_data (snd src name))"
proof (cases "snd src name")
  case (Raises e)
  then show ?thesis by (simp add: merge_outcome_def yields_required_data_def)
next
  case (Returns r)
  show ?thesis
  proof (cases r)
    case None
    with Returns show ?thesis by (simp add: merge_outcome_def yields_required_data_def)
  next
    case (Some d)
    with Returns show ?thesis
      by (cases "d = []")
         (simp_all add: merge_outcome_def yields_required_data_def
            has_required_data_merge_results has_required_data_Nil)
  qed
qed

lemma get_merge_outcome_flag:
  "get (merge_outcome name acc src) ''lookup_successful'' = get acc ''lookup_successful''"
  by (simp add: merge_outcome_def get_merge_results_other fields_to_merge_def
      split: scrape_outcome.split option.split)

lemma foldl_no_data:
  "\<not> has_required_data acc \<Longrightarrow> \<forall>src \<in> set ss. \<not> yields_required_data (snd src name) \<Longrightarrow>
   \<not> has_required_data (foldl (merge_outcome name) acc ss)"
  by (induction ss arbitrary: acc) (simp_all add: has_required_data_merge_outcome)

lemma foldl_flag:
  "get (foldl (merge_outcome name) acc ss) ''lookup_successful'' = get acc ''lookup_successful''"
  by (induction ss arbitrary: acc) (simp_all add: get_merge_outcome_flag)

lemma initial_result_no_data: "\<not> has_required_data initial_result"
  by (simp add: has_required_data_def initial_result_def get_def)

lemma initial_result_flags:
  "get initial_result ''lookup_successful'' = PBool False"
  by (simp add: initial_result_def get_def)

subsection \<open>The loop over the sources\<close>

lemma consulted_count_le: "consulted_count name acc ss \<le> length ss"
  by (induction ss arbitrary: acc) auto

lemma consulted_count_pos: "ss \<noteq> [] \<Longrightarrow> 1 \<le> consulted_count name acc ss"
  by (cases ss) auto

lemma consulted_count_before:
  "1 \<le> k \<Longrightarrow> k < consulted_count name acc ss \<Longrightarrow>
   \<not> has_required_data (foldl (merge_outcome name) acc (take k ss))"
proof (induction ss arbitrary: acc k)
  case Nil
  then show ?case by simp
next
  case (Cons src rest)
  from Cons.prems have nreq: "\<not> has_required_data (merge_outcome name acc src)"
    and lt: "k < Suc (consulted_count name (merge_outcome name acc src) rest)"
    by (auto split: if_splits)
  show ?case
  proof (cases "k = 1")
    case True
    with nreq show ?thesis by simp
  next
    case False
    with Cons.prems(1) obtain j where k: "k = Suc j" and j: "1 \<le> j" by (cases k) auto
    from lt k have "j < consulted_count name (merge_outcome name acc src) rest" by simp
    from Cons.IH[OF j this] show ?thesis by (simp add: k)
  qed
qed

lemma consulted_count_stop:
  "consulted_count name acc ss < length ss \<Longrightarrow>
   has_required_data (foldl (merge_outcome name) acc (take (consulted_count name acc ss) ss))"
  by (induction ss arbitrary: acc) auto

lemma consulted_count_all:
  "\<not> has_required_data acc \<Longrightarrow> \<forall>src \<in> set ss. \<not> yields_required_data (snd src name) \<Longrightarrow>
   consulted_count name acc ss = length ss"
  by (induction ss arbitrary: acc) (simp_all add: has_required_data_merge_outcome)

lemma database_update_same: "database st = db \<Longrightarrow> st\<lparr>database := db\<rparr> = st"
  by (cases st) simp

lemma try_sources_step:
  assumes "\<not> has_required_data (result st)"
  shows "try_sources key name (src # rest) st =
     (let st1 = st\<lparr>tried := tried st @ [fst src],
                    result := merge_outcome name (result st) src,
                    database := cache_step key name src (database st)\<rparr>
      in if has_required_data (result st1)
         then st1\<lparr>result := AList.update ''lookup_successful'' (PBool True) (result st1)\<rparr>
         else try_sources key name rest st1)"
proof -
  obtain sn sc where src: "src = (sn, sc)" by (cases src)
  show ?thesis
  proof (cases "sc name")
    case (Raises e)
    with assms src show ?thesis by (simp add: merge_outcome_def cache_step_def)
  next
    case (Returns r)
    show ?thesis
    proof (cases r)
      case None
      with Returns assms src show ?thesis by (simp add: merge_outcome_def cache_step_def)
    next
      case (Some d)
      with Returns assms src show ?thesis
        by (cases "d = []") (auto simp: merge_outcome_def cache_step_def Let_def database_update_same)
    qed
  qed
qed

lemma try_sources_tried:
  "\<not> has_required_data (result st) \<Longrightarrow>
   tried (try_sources key name ss st) =
     tried st @ map fst (take (consulted_count name (result st) ss) ss)"
proof (induction ss arbitrary: st)
  case Nil
  show ?case by simp
next
  case (Cons src rest)
  obtain sn sc where src: "src = (sn, sc)" by (cases src)
  show ?case
  proof (cases "sc name")
    case (Raises e)
    with Cons.prems Cons.IH[of "st\<lparr>tried := tried st @ [sn]\<rparr>"] src
    show ?thesis by (simp add: merge_outcome_def)
  next
    case (Returns r)
    show ?thesis
    proof (cases r)
      case None
      with Returns Cons.prems Cons.IH[of "st\<lparr>tried := tried st @ [sn]\<rparr>"] src
      show ?thesis by (simp add: merge_outcome_def)
    next
      case (Some d)
      show ?thesis
      proof (cases "d = []")
        case True
        with Some Returns Cons.prems Cons.IH[of "st\<lparr>tried := tried st @ [sn]\<rparr>"] src
        show ?thesis by (simp add: merge_outcome_def)
      next
        case False
        let ?acc = "merge_results (result st) d sn"
        show ?thesis
        proof (cases "has_required_data ?acc")
          case True
          with False Some Returns src show ?thesis
            by (simp add: merge_outcome_def Let_def)
        next
          case nreq: False
          let ?st2 = "st\<lparr>tried := tried st @ [sn], result := ?acc\<rparr>"
          let ?st3 = "?st2\<lparr>database := cache_result (database st) key sn d\<rparr>"
          from nreq have a: "\<not> has_required_data (result ?st2)" and b: "\<not> has_required_data (result ?st3)" by simp_all
          from nreq False Some Returns src Cons.IH[OF a] Cons.IH[OF b]
          show ?thesis by (simp add: merge_outcome_def Let_def)
        qed
      qed
    qed
  qed
qed

lemma try_sources_result:
  "\<not> has_required_data (result st) \<Longrightarrow>
   result (try_sources key name ss st) =
     (let acc = foldl (merge_outcome name) (result st) (take (consulted_count name (result st) ss) ss)
      in if has_required_data acc then AList.update ''lookup_successful'' (PBool True) acc else acc)"
proof (induction ss arbitrary: st)
  case Nil
  then show ?case by simp
next
  case (Cons src rest)
  show ?case
  proof (cases "has_required_data (merge_outcome name (result st) src)")
    case True
    with Cons.prems show ?thesis by (simp add: try_sources_step Let_def)
  next
    case False
    let ?st1 = "st\<lparr>tried := tried st @ [fst src],
                    result := merge_outcome name (result st) src,
                    database := cache_step key name src (database st)\<rparr>"
    from False have "\<not> has_required_data (result ?st1)" by simp
    from Cons.IH[OF this] False Cons.prems show ?thesis
      by (simp add: try_sources_step Let_def)
  qed
qed

lemma cache_params_row: "(InsertHometownCache, cache_params key sn r) = raw_result_row key sn r"
  by (simp add: cache_params_def raw_result_row_def cached_columns_def)

lemma cache_result_sent:
  "\<exists>d'. cache_result (Some d) key sn r = Some d' \<and> server d' = server d
        \<and> sent d' = sent d @ [raw_result_row key sn r]"
  by (auto simp: cache_result_def cache_hometown_lookup_def execute_def cache_params_row
      split: sum.split prod.split)

lemma cache_step_None: "cache_step key name src None = None"
  by (simp add: cache_step_def split: scrape_outcome.split option.split)

lemma cache_step_Some:
  "\<exists>d'. cache_step key name src (Some d) = Some d' \<and> server d' = server d
        \<and> sent d' = sent d @ cache_write key name src"
  using cache_result_sent[of d key "fst src"]
  by (auto simp: cache_step_def cache_write_def split: scrape_outcome.split option.split)

lemma try_sources_no_database:
  "\<not> has_required_data (result st) \<Longrightarrow> database st = None \<Longrightarrow>
   database (try_sources key name ss st) = None"
proof (induction ss arbitrary: st)
  case Nil
  then show ?case by simp
next
  case (Cons src rest)
  let ?st1 = "st\<lparr>tried := tried st @ [fst src],
                  result := merge_outcome name (result st) src,
                  database := cache_step key name src (database st)\<rparr>"
  show ?case
  proof (cases "has_required_data (merge_outcome name (result st) src)")
    case True
    with Cons.prems show ?thesis by (simp add: try_sources_step Let_def cache_step_None)
  next
    case False
    then have a: "\<not> has_required_data (result ?st1)" by simp
    from Cons.prems have b: "database ?st1 = None" by (simp add: cache_step_None)
    from Cons.IH[OF a b] False Cons.prems show ?thesis
      by (simp add: try_sources_step Let_def)
  qed
qed

lemma try_sources_database:
  "\<not> has_required_data (result st) \<Longrightarrow> database st = Some d \<Longrightarrow>
   \<exists>d'. database (try_sources key name ss st) = Some d' \<and> server d' = server d
       \<and> sent d' = sent d @ cache_writes key name (take (consulted_count name (result st) ss) ss)"
proof (induction ss arbitrary: st d)
  case Nil
  then show ?case by (simp add: cache_writes_def)
next
  case (Cons src rest)
  let ?st1 = "st\<lparr>tried := tried st @ [fst src],
                  result := merge_outcome name (result st) src,
                  database := cache_step key name src (database st)\<rparr>"
  obtain d1 where d1: "cache_step key name src (Some d) = Some d1" "server d1 = server d"
      "sent d1 = sent d @ cache_write key name src"
    using cache_step_Some by blast
  show ?case
  proof (cases "has_required_data (merge_outcome name (result st) src)")
    case True
    with Cons.prems d1 show ?thesis by (simp add: try_sources_step Let_def cache_writes_def)
  next
    case False
    then have a: "\<not> has_required_data (result ?st1)" by simp
    from Cons.prems d1 have b: "database ?st1 = Some d1" by simp
    from Cons.IH[OF a b] obtain d' where
      "database (try_sources key name rest ?st1) = Some d'" "server d' = server d1"
      "sent d' = sent d1 @ cache_writes key name (take (consulted_count name (result ?st1) rest) rest)"
      by blast
    with False Cons.prems d1 show ?thesis
      by (simp add: try_sources_step Let_def cache_writes_def)
  qed
qed

lemma lookup_sources_tried:
  "tried (lookup_sources ss db key name) = map fst (take (consulted_count name initial_result ss) ss)"
  by (simp add: lookup_sources_def Let_def try_sources_tried initial_result_no_data)

lemma lookup_sources_result:
  "result (lookup_sources ss db key name) =
     (let acc = foldl (merge_outcome name) initial_result (take (consulted_count name initial_result ss) ss)
      in if has_required_data acc then AList.update ''lookup_successful'' (PBool True) acc
         else AList.update ''needs_manual_review'' (PBool True) acc)"
  by (simp add: lookup_sources_def Let_def try_sources_result initial_result_no_data get_update
      foldl_flag initial_result_flags)

lemma lookup_sources_database:
  "\<exists>d'. database (lookup_sources ss (Some d) key name) = Some d' \<and> server d' = server d
     \<and> sent d' = sent d @ cache_writes key name (take (consulted_count name initial_result ss) ss)"
  using try_sources_database[of "\<lparr>result = initial_result, database = Some d, tried = []\<rparr>" d key name ss]
  by (auto simp: lookup_sources_def Let_def initial_result_no_data)

lemma lookup_sources_no_database:
  "database (lookup_sources ss None key name) = None"
  using try_sources_no_database[of "\<lparr>result = initial_result, database = None, tried = []\<rparr>" key name ss]
  by (auto simp: lookup_sources_def Let_def initial_result_no_data)

subsection \<open>The lookup with its cache\<close>

lemma get_cached_result_sent:
  "\<exists>d'. snd (get_cached_result (Some d) key) = Some d' \<and> server d' = server d
       \<and> sent d' = sent d @ [(SelectHometownCache, [PStr key])]"
  by (auto simp: get_cached_result_def get_hometown_cache_def fetch_one_def
      split: sum.split option.split prod.split)

lemma lookup_hit:
  "cache_hit lower unidecode db name force \<Longrightarrow>
   tried (lookup_player_hometown lower unidecode ss db name force) = [] \<and>
   database (lookup_player_hometown lower unidecode ss db name force) =
     snd (get_cached_result db (normalize_name lower unidecode name)) \<and>
   fst (get_cached_result db (normalize_name lower unidecode name)) =
     Some (result (lookup_player_hometown lower unidecode ss db name force))"
  by (auto simp: cache_hit_def lookup_player_hometown_def Let_def split: prod.split option.splits)

lemma lookup_miss:
  "\<not> cache_hit lower unidecode db name force \<Longrightarrow>
   lookup_player_hometown lower unidecode ss db name force =
     lookup_sources ss
       (if \<not> force \<and> db \<noteq> None then snd (get_cached_result db (normalize_name lower unidecode name)) else db)
       (normalize_name lower unidecode name) name"
  by (auto simp: cache_hit_def lookup_player_hometown_def Let_def split: prod.split option.splits)

lemma lookup_tried:
  "tried (lookup_player_hometown lower unidecode ss db name force) =
     (if cache_hit lower unidecode db name force then []
      else map fst (take (consulted_count name initial_result ss) ss))"
  by (simp add: lookup_hit lookup_miss lookup_sources_tried)

lemma lookup_result_cases:
  "result (lookup_player_hometown lower unidecode ss db name force) =
     (if cache_hit lower unidecode db name force
      then the (fst (get_cached_result db (normalize_name lower unidecode name)))
      else result (lookup_sources ss None (normalize_name lower unidecode name) name))"
proof (cases "cache_hit lower unidecode db name force")
  case True
  from lookup_hit[OF True, of ss] show ?thesis using True by simp
next
  case False
  then show ?thesis by (simp add: lookup_miss lookup_sources_result)
qed

lemma source_names: "map fst (init_scrapers b w g) = [''basketball_reference'', ''wikipedia'', ''grokepedia'']"
  by (simp add: init_scrapers_def)

lemma take_source_names:
  "map fst (take n (init_scrapers b w g)) = take n [''basketball_reference'', ''wikipedia'', ''grokepedia'']"
  by (simp only: take_map[symmetric] source_names)

lemma length_init_scrapers: "length (init_scrapers b w g) = 3"
  by (simp add: init_scrapers_def)

text \<open>
  Claim C1.  When the cache is disabled or misses, \<open>lookup_player_hometown\<close>
  calls the sources in the order basketball\_reference, wikipedia, grokepedia.  It calls
  \<open>n\<close> of them, with \<open>1 \<le> n \<le> 3\<close>: the accumulated result has neither a state nor a
  high school after any of the first \<open>n - 1\<close> sources, and when \<open>n < 3\<close> it has one after
  the \<open>n\<close>-th, so that no source after the stopping point is called.
\<close>

theorem lookup_consults_sources_in_priority_order:
  assumes "\<not> cache_hit lower unidecode db player_name force_refresh"
  shows "\<exists>n. 1 \<le> n \<and> n \<le> 3
     \<and> tried (lookup_player_hometown lower unidecode (init_scrapers b w g) db player_name force_refresh)
         = take n [''basketball_reference'', ''wikipedia'', ''grokepedia'']
     \<and> (\<forall>k. 1 \<le> k \<and> k < n \<longrightarrow>
           \<not> has_required_data (accumulated player_name (init_scrapers b w g) k))
     \<and> (n < 3 \<longrightarrow> has_required_data (accumulated player_name (init_scrapers b w g) n))"
proof -
  let ?ss = "init_scrapers b w g"
  let ?n = "consulted_count player_name initial_result ?ss"
  have "?ss \<noteq> []" by (simp add: init_scrapers_def)
  then have lo: "1 \<le> ?n" by (rule consulted_count_pos)
  have hi: "?n \<le> 3" using consulted_count_le[of player_name initial_result ?ss]
    by (simp add: length_init_scrapers)
  have tr: "tried (lookup_player_hometown lower unidecode ?ss db player_name force_refresh)
      = take ?n [''basketball_reference'', ''wikipedia'', ''grokepedia'']"
    using assms by (simp add: lookup_tried take_source_names)
  have before: "\<forall>k. 1 \<le> k \<and> k < ?n \<longrightarrow> \<not> has_required_data (accumulated player_name ?ss k)"
    by (simp add: accumulated_def consulted_count_before)
  have stop: "?n < 3 \<longrightarrow> has_required_data (accumulated player_name ?ss ?n)"
    using consulted_count_stop[of player_name initial_result ?ss]
    by (simp add: accumulated_def length_init_scrapers)
  from lo hi tr before stop show ?thesis by blast
qed

text \<open>
  A run of C1: the first source finds no page, the second one yields a state, and the
  third one is not called.
\<close>

theorem lookup_consults_sources_in_priority_order_witness:
  "tried (lookup_player_hometown ascii_lower ascii_only (init_scrapers no_page texas_page college_page)
            None example_name False) = [''basketball_reference'', ''wikipedia'']"
proof -
  let ?ss = "init_scrapers no_page texas_page college_page"
  have miss: "\<not> cache_hit ascii_lower ascii_only None example_name False"
    by (simp add: cache_hit_def)
  have a1: "\<not> has_required_data (accumulated example_name ?ss 1)"
    by (simp add: accumulated_def init_scrapers_def merge_outcome_def no_page_def
        initial_result_def has_required_data_def get_def)
  have a2: "has_required_data (accumulated example_name ?ss 2)"
  proof -
    have nonempty: "texas_result \<noteq> []" by (simp add: texas_result_def)
    have acc: "accumulated example_name ?ss 2 = merge_results initial_result texas_result ''wikipedia''"
      using nonempty
      by (simp add: accumulated_def init_scrapers_def merge_outcome_def no_page_def texas_page_def)
    have "has_required_data texas_result"
      by (simp add: texas_result_def has_required_data_def get_def lit_simps)
    then show ?thesis by (simp only: acc has_required_data_merge_results simp_thms)
  qed
  from lookup_consults_sources_in_priority_order[OF miss, of no_page texas_page college_page]
  obtain n where n: "1 \<le> n" "n \<le> 3"
    and tr: "tried (lookup_player_hometown ascii_lower ascii_only ?ss None example_name False)
              = take n [''basketball_reference'', ''wikipedia'', ''grokepedia'']"
    and before: "\<forall>k. 1 \<le> k \<and> k < n \<longrightarrow> \<not> has_required_data (accumulated example_name ?ss k)"
    and stop: "n < 3 \<longrightarrow> has_required_data (accumulated example_name ?ss n)"
    by blast
  have "n \<noteq> 1" using stop a1 by auto
  moreover have "n \<noteq> 3" using before a2 by auto
  ultimately have "n = 2" using n by arith
  with tr show ?thesis by simp
qed

text \<open>
  Claim C5.  \<open>lookup_player_hometown\<close> is a total function (the loop is a structural
  recursion over the list of scrapers); it calls at most three sources, each at most
  once, and only the three sources of \<open>__init__\<close>.
\<close>

theorem lookup_consults_each_source_at_most_once:
  "length (tried (lookup_player_hometown lower unidecode (init_scrapers b w g) db player_name force_refresh)) \<le> 3
   \<and> distinct (tried (lookup_player_hometown lower unidecode (init_scrapers b w g) db player_name force_refresh))
   \<and> set (tried (lookup_player_hometown lower unidecode (init_scrapers b w g) db player_name force_refresh))
       \<subseteq> {''basketball_reference'', ''wikipedia'', ''grokepedia''}"
proof -
  let ?names = "[''basketball_reference'', ''wikipedia'', ''grokepedia'']"
  have d: "distinct ?names" by simp
  have "\<exists>n. tried (lookup_player_hometown lower unidecode (init_scrapers b w g) db player_name force_refresh)
      = take n ?names"
  proof (cases "cache_hit lower unidecode db player_name force_refresh")
    case True
    then have "tried (lookup_player_hometown lower unidecode (init_scrapers b w g) db player_name force_refresh)
      = take 0 ?names" by (simp add: lookup_tried)
    then show ?thesis by blast
  next
    case False
    then show ?thesis by (simp add: lookup_tried take_source_names) blast
  qed
  then obtain n where n: "tried (lookup_player_hometown lower unidecode (init_scrapers b w g) db player_name force_refresh)
      = take n ?names" by blast
  have "length (take n ?names) \<le> 3" by simp
  moreover have "distinct (take n ?names)" using d by (rule distinct_take)
  moreover have "set (take n ?names) \<subseteq> set ?names" by (rule set_take_subset)
  ultimately show ?thesis unfolding n by simp
qed

lemma fst_get_cached_result_with_execute:
  "fst (get_cached_result (Some (with_execute f d)) key) = fst (get_cached_result (Some d) key)"
  by (simp add: get_cached_result_def get_hometown_cache_def fetch_one_def with_execute_def
      split: sum.split option.split)

lemma cache_hit_with_execute:
  "cache_hit lower unidecode (Some (with_execute f d)) name force = cache_hit lower unidecode (Some d) name force"
  by (simp add: cache_hit_def fst_get_cached_result_with_execute)

lemma cache_writes_keyed:
  "list_all (\<lambda>c. fst c = InsertHometownCache \<and> take 1 (snd c) = [PStr key]) (cache_writes key name ss)"
  by (induction ss)
     (auto simp: cache_writes_def cache_write_def raw_result_row_def
        split: scrape_outcome.split option.split)

lemma example_key: "normalize_name ascii_lower ascii_only example_name = lit ''bo_lee''"
  by (simp add: normalize_name_def example_name_def lit_simps ascii_lower_def ascii_only_def strip_def
      sub_non_alnum_space_def is_space_def is_lower_az_def is_upper_az_def is_digit09_def underscore_def)

lemma example_tried:
  "tried (lookup_player_hometown ascii_lower ascii_only (init_scrapers college_page texas_page no_page)
            (Some \<lparr>server = empty_server, sent = []\<rparr>) example_name False)
     = [''basketball_reference'', ''wikipedia'']"
proof -
  let ?ss = "init_scrapers college_page texas_page no_page"
  have miss: "\<not> cache_hit ascii_lower ascii_only (Some \<lparr>server = empty_server, sent = []\<rparr>) example_name False"
    by (simp add: cache_hit_def get_cached_result_def get_hometown_cache_def fetch_one_def
        empty_server_def)
  have t: "texas_result \<noteq> []" by (simp add: texas_result_def)
  have h: "has_required_data texas_result"
    by (simp add: texas_result_def has_required_data_def get_def lit_simps)
  have c: "\<not> has_required_data [(''college'', PStr (lit ''Duke'')), (''lookup_successful'', PBool False)]"
    by (simp add: has_required_data_def get_def)
  have "consulted_count example_name initial_result ?ss = 2"
    using t h c
    by (simp add: init_scrapers_def merge_outcome_def college_page_def texas_page_def
        has_required_data_merge_results initial_result_no_data)
  with miss show ?thesis
    by (simp add: lookup_tried init_scrapers_def)
qed

text \<open>
  Claim C4.  With a connector attached, the statements that \<open>lookup_player_hometown\<close>
  sends are the cache query (unless \<open>force_refresh\<close> is set) and then, for every source
  it has called that returned a non-empty dictionary, one insert of that source's own
  result, all of them keyed by \<open>normalize_name\<close> of the player name.  Whatever the
  server does with the inserts (it may fail or raise), the result and the sources called
  are the same.
\<close>

theorem lookup_caches_raw_results_by_normalized_name:
  "(\<exists>d'. database (lookup_player_hometown lower unidecode scrapers (Some d) player_name force_refresh) = Some d'
        \<and> server d' = server d
        \<and> sent d' =
            sent d
            @ (if force_refresh then []
               else [(SelectHometownCache, [PStr (normalize_name lower unidecode player_name)])])
            @ cache_writes (normalize_name lower unidecode player_name) player_name
                (take (length (tried (lookup_player_hometown lower unidecode scrapers (Some d)
                                        player_name force_refresh)))
                   scrapers))
   \<and> list_all (\<lambda>c. fst c = InsertHometownCache
                    \<and> take 1 (snd c) = [PStr (normalize_name lower unidecode player_name)])
         (cache_writes (normalize_name lower unidecode player_name) player_name
            (take (length (tried (lookup_player_hometown lower unidecode scrapers (Some d)
                                    player_name force_refresh)))
               scrapers))
   \<and> result (lookup_player_hometown lower unidecode scrapers (Some (with_execute f d)) player_name force_refresh)
       = result (lookup_player_hometown lower unidecode scrapers (Some d) player_name force_refresh)
   \<and> tried (lookup_player_hometown lower unidecode scrapers (Some (with_execute f d)) player_name force_refresh)
       = tried (lookup_player_hometown lower unidecode scrapers (Some d) player_name force_refresh)"
proof -
  let ?key = "normalize_name lower unidecode player_name"
  let ?st = "lookup_player_hometown lower unidecode scrapers (Some d) player_name force_refresh"
  let ?n = "consulted_count player_name initial_result scrapers"
  obtain d1 where d1: "snd (get_cached_result (Some d) ?key) = Some d1" "server d1 = server d"
      "sent d1 = sent d @ [(SelectHometownCache, [PStr ?key])]"
    using get_cached_result_sent by blast
  have len: "length (map fst (take ?n scrapers)) = ?n"
    using consulted_count_le[of player_name initial_result scrapers] by simp
  have db: "\<exists>d'. database ?st = Some d' \<and> server d' = server d
      \<and> sent d' = sent d @ (if force_refresh then [] else [(SelectHometownCache, [PStr ?key])])
                  @ cache_writes ?key player_name (take (length (tried ?st)) scrapers)"
  proof (cases "cache_hit lower unidecode (Some d) player_name force_refresh")
    case True
    then have nf: "\<not> force_refresh" by (simp add: cache_hit_def)
    from lookup_hit[OF True, of scrapers] d1 nf show ?thesis
      by (simp add: cache_writes_def)
  next
    case False
    show ?thesis
    proof (cases force_refresh)
      case True
      from lookup_sources_database[of scrapers d ?key player_name] False True len
      show ?thesis by (simp add: lookup_miss lookup_sources_tried)
    next
      case nf: False
      from lookup_sources_database[of scrapers d1 ?key player_name] False nf d1 len
      show ?thesis by (simp add: lookup_miss lookup_sources_tried)
    qed
  qed
  have res: "result (lookup_player_hometown lower unidecode scrapers (Some (with_execute f d)) player_name force_refresh)
       = result ?st"
    by (simp add: lookup_result_cases cache_hit_with_execute fst_get_cached_result_with_execute)
  have tr: "tried (lookup_player_hometown lower unidecode scrapers (Some (with_execute f d)) player_name force_refresh)
       = tried ?st"
    by (simp add: lookup_tried cache_hit_with_execute)
  from db res tr cache_writes_keyed show ?thesis by blast
qed

text \<open>
  A lookup for C4: two sources answer; each row holds the key \<open>bo_lee\<close>, the name of
  the source and that source's own fields (the college of the second row is the one
  wikipedia returned, although the merged result keeps the one of the first source).
\<close>

theorem lookup_caches_raw_results_by_normalized_name_witness:
  "(\<exists>d'. database (lookup_player_hometown ascii_lower ascii_only
                     (init_scrapers college_page texas_page no_page)
                     (Some \<lparr>server = empty_server, sent = []\<rparr>) example_name False) = Some d'
        \<and> sent d' =
            [(SelectHometownCache, [PStr (lit ''bo_lee'')]),
             (InsertHometownCache,
              [PStr (lit ''bo_lee''), PStr (lit ''basketball_reference''), PBool False,
               PNone, PNone, PNone, PNone, PNone, PStr (lit ''Duke''), PNone, PNone, PNone]),
             (InsertHometownCache,
              [PStr (lit ''bo_lee''), PStr (lit ''wikipedia''), PBool True,
               PNone, PStr (lit ''Texas''), PNone, PNone, PNone, PStr (lit ''Rice''), PNone, PNone,
               PNone])])
   \<and> get (result (lookup_player_hometown ascii_lower ascii_only
                     (init_scrapers college_page texas_page no_page)
                     (Some \<lparr>server = empty_server, sent = []\<rparr>) example_name False)) ''college''
       = PStr (lit ''Duke'')"
proof -
  let ?ss = "init_scrapers college_page texas_page no_page"
  let ?d = "\<lparr>server = empty_server, sent = []\<rparr>"
  let ?st = "lookup_player_hometown ascii_lower ascii_only ?ss (Some ?d) example_name False"
  have t: "texas_result \<noteq> []" by (simp add: texas_result_def)
  have writes: "cache_writes (lit ''bo_lee'') example_name (take 2 ?ss) =
      [(InsertHometownCache,
        [PStr (lit ''bo_lee''), PStr (lit ''basketball_reference''), PBool False,
         PNone, PNone, PNone, PNone, PNone, PStr (lit ''Duke''), PNone, PNone, PNone]),
       (InsertHometownCache,
        [PStr (lit ''bo_lee''), PStr (lit ''wikipedia''), PBool True,
         PNone, PStr (lit ''Texas''), PNone, PNone, PNone, PStr (lit ''Rice''), PNone, PNone,
         PNone])]"
    using t
    by (simp add: init_scrapers_def cache_writes_def cache_write_def raw_result_row_def
        cached_columns_def college_page_def texas_page_def)
       (simp add: texas_result_def get_def get_default_def)
  have college: "get (result ?st) ''college'' = PStr (lit ''Duke'')"
    using t
    by (simp add: lookup_result_cases cache_hit_def get_cached_result_def get_hometown_cache_def
        fetch_one_def empty_server_def lookup_sources_result init_scrapers_def merge_outcome_def
        college_page_def texas_page_def has_required_data_merge_results initial_result_no_data
        get_update get_merge_results fields_to_merge_def)
       (simp add: texas_result_def initial_result_def has_required_data_def get_def lit_simps)
  from lookup_caches_raw_results_by_normalized_name[of ascii_lower ascii_only ?ss ?d example_name False]
  obtain d' where "database ?st = Some d'"
    and "sent d' = sent ?d @ [(SelectHometownCache, [PStr (normalize_name ascii_lower ascii_only example_name)])]
           @ cache_writes (normalize_name ascii_lower ascii_only example_name) example_name
               (take (length (tried ?st)) ?ss)"
    by auto
  then have "\<exists>d'. database ?st = Some d' \<and> sent d' =
      [(SelectHometownCache, [PStr (lit ''bo_lee'')])] @ cache_writes (lit ''bo_lee'') example_name (take 2 ?ss)"
    by (simp add: example_key example_tried numeral_2_eq_2)
  with writes college show ?thesis by simp
qed

subsection \<open>Lookups that find nothing\<close>

text \<open>
  Claim C3 as stated fails when the cache answers: with a successful cache entry for the
  name, the lookup returns that entry, which has no \<open>needs_manual_review\<close> key and a
  truthy \<open>lookup_successful\<close>, although no source yields the minimum required data.
\<close>

theorem cached_entry_counterexample:
  "\<not> yields_required_data (no_page example_name)
   \<and> get (result (lookup_player_hometown ascii_lower ascii_only (init_scrapers no_page no_page no_page)
            (Some \<lparr>server = cached_server, sent = []\<rparr>) example_name False)) ''needs_manual_review'' = PNone
   \<and> get (result (lookup_player_hometown ascii_lower ascii_only (init_scrapers no_page no_page no_page)
            (Some \<lparr>server = cached_server, sent = []\<rparr>) example_name False)) ''lookup_successful'' = PInt 1"
  by (simp add: yields_required_data_def no_page_def lookup_player_hometown_def get_cached_result_def
      get_hometown_cache_def fetch_one_def cached_server_def get_def get_default_def)

lemma lookup_sources_flagged:
  assumes "\<forall>src \<in> set ss. \<not> yields_required_data (snd src name)"
  shows "get (result (lookup_sources ss db key name)) ''needs_manual_review'' = PBool True"
    and "get (result (lookup_sources ss db key name)) ''lookup_successful'' = PBool False"
    and "tried (lookup_sources ss db key name) = map fst ss"
proof -
  have n: "consulted_count name initial_result ss = length ss"
    using assms by (simp add: consulted_count_all initial_result_no_data)
  have nd: "\<not> has_required_data (foldl (merge_outcome name) initial_result ss)"
    using assms by (simp add: foldl_no_data initial_result_no_data)
  show "get (result (lookup_sources ss db key name)) ''needs_manual_review'' = PBool True"
    using n nd by (simp add: lookup_sources_result get_update)
  show "get (result (lookup_sources ss db key name)) ''lookup_successful'' = PBool False"
    using n nd by (simp add: lookup_sources_result get_update foldl_flag initial_result_flags)
  show "tried (lookup_sources ss db key name) = map fst ss"
    using n by (simp add: lookup_sources_tried)
qed

lemma mark_player_for_review_sent:
  "sent (snd (mark_player_for_review d pid)) = sent d @ [(UpdatePlayerReview, [pid])]"
  by (simp add: mark_player_for_review_def execute_def split: sum.split)

lemma process_player_unsuccessful:
  assumes "\<not> truthy (get (result (lookup_player_hometown lower unidecode ss (Some d)
              (as_name (get player ''full_name'')) False)) ''lookup_successful'')"
  shows "snd (process_player lower unidecode ss today player summ d) =
     snd (mark_player_for_review
            (attached d (database (lookup_player_hometown lower unidecode ss (Some d)
              (as_name (get player ''full_name'')) False)))
            (get player ''player_id''))"
  using assms by (simp add: process_player_def Let_def split: prod.split sum.split)

text \<open>
  Claim C3, amended.  When the cache is disabled or misses and no source yields the
  minimum required data (a source that raises yields nothing), \<open>lookup_player_hometown\<close>
  calls every source and returns a record with \<open>needs_manual_review\<close> set to \<open>True\<close> and
  \<open>lookup_successful\<close> set to \<open>False\<close>; in batch processing the statements sent for such
  a player are the cache query, the cache inserts and the update that marks the player
  for review, and no update of the player's hometown.
\<close>

theorem unresolved_lookup_is_flagged_for_review:
  assumes miss: "\<not> cache_hit lower unidecode db player_name force_refresh"
    and nodata: "\<forall>src \<in> set scrapers. \<not> yields_required_data (snd src player_name)"
  shows "get (result (lookup_player_hometown lower unidecode scrapers db player_name force_refresh))
           ''needs_manual_review'' = PBool True
       \<and> get (result (lookup_player_hometown lower unidecode scrapers db player_name force_refresh))
           ''lookup_successful'' = PBool False
       \<and> tried (lookup_player_hometown lower unidecode scrapers db player_name force_refresh)
           = map fst scrapers
       \<and> (db = Some d \<and> \<not> force_refresh \<and> as_name (get player ''full_name'') = player_name \<longrightarrow>
             sent (snd (process_player lower unidecode scrapers today player summ d)) =
               sent d
               @ [(SelectHometownCache, [PStr (normalize_name lower unidecode player_name)])]
               @ cache_writes (normalize_name lower unidecode player_name) player_name scrapers
               @ [(UpdatePlayerReview, [get player ''player_id''])])"
proof -
  let ?key = "normalize_name lower unidecode player_name"
  let ?st = "lookup_player_hometown lower unidecode scrapers db player_name force_refresh"
  have flag: "get (result ?st) ''needs_manual_review'' = PBool True"
    and unsuccessful: "get (result ?st) ''lookup_successful'' = PBool False"
    and all_tried: "tried ?st = map fst scrapers"
    using lookup_sources_flagged[OF nodata] miss by (simp_all add: lookup_miss)
  have batch: "sent (snd (process_player lower unidecode scrapers today player summ d)) =
               sent d @ [(SelectHometownCache, [PStr ?key])]
               @ cache_writes ?key player_name scrapers
               @ [(UpdatePlayerReview, [get player ''player_id''])]"
    if h: "db = Some d \<and> \<not> force_refresh \<and> as_name (get player ''full_name'') = player_name"
  proof -
    let ?st' = "lookup_player_hometown lower unidecode scrapers (Some d)
                  (as_name (get player ''full_name'')) False"
    from h have eq: "?st' = ?st" by simp
    have "\<not> truthy (get (result ?st') ''lookup_successful'')"
      using unsuccessful eq by simp
    from process_player_unsuccessful[OF this]
    have p: "snd (process_player lower unidecode scrapers today player summ d) =
       snd (mark_player_for_review (attached d (database ?st)) (get player ''player_id''))"
      using eq by simp
    have n: "consulted_count player_name initial_result scrapers = length scrapers"
      using nodata by (simp add: consulted_count_all initial_result_no_data)
    obtain d1 where d1: "snd (get_cached_result (Some d) ?key) = Some d1"
        "sent d1 = sent d @ [(SelectHometownCache, [PStr ?key])]"
      using get_cached_result_sent by blast
    obtain d2 where d2: "database (lookup_sources scrapers (Some d1) ?key player_name) = Some d2"
        "sent d2 = sent d1 @ cache_writes ?key player_name scrapers"
      using lookup_sources_database[of scrapers d1 ?key player_name] n by auto
    have "database ?st = Some d2"
      using miss h d1 d2 by (simp add: lookup_miss)
    then show ?thesis using p d1 d2
      by (simp add: attached_def mark_player_for_review_sent)
  qed
  from flag unsuccessful all_tried batch show ?thesis by blast
qed

text \<open>
  A run of C3 as amended: no page, a scraper that raises, and a page with a college only.
\<close>

theorem unresolved_lookup_is_flagged_for_review_witness:
  "get (result (lookup_player_hometown ascii_lower ascii_only (init_scrapers no_page parser_crash college_page)
          (Some \<lparr>server = empty_server, sent = []\<rparr>) example_name False)) ''needs_manual_review'' = PBool True
   \<and> get (result (lookup_player_hometown ascii_lower ascii_only (init_scrapers no_page parser_crash college_page)
          (Some \<lparr>server = empty_server, sent = []\<rparr>) example_name False)) ''lookup_successful'' = PBool False
   \<and> tried (lookup_player_hometown ascii_lower ascii_only (init_scrapers no_page parser_crash college_page)
          (Some \<lparr>server = empty_server, sent = []\<rparr>) example_name False)
       = [''basketball_reference'', ''wikipedia'', ''grokepedia'']
   \<and> map fst (sent (snd (process_player ascii_lower ascii_only (init_scrapers no_page parser_crash college_page)
          0 example_player \<lparr>total = 1, success = 0, failed = 0, needs_review = 0\<rparr>
          \<lparr>server = empty_server, sent = []\<rparr>)))
       = [SelectHometownCache, InsertHometownCache, UpdatePlayerReview]"
proof -
  let ?ss = "init_scrapers no_page parser_crash college_page"
  let ?d = "\<lparr>server = empty_server, sent = []\<rparr>"
  have miss: "\<not> cache_hit ascii_lower ascii_only (Some ?d) example_name False"
    by (simp add: cache_hit_def get_cached_result_def get_hometown_cache_def fetch_one_def
        empty_server_def)
  have nodata: "\<forall>src \<in> set ?ss. \<not> yields_required_data (snd src example_name)"
    by (simp add: init_scrapers_def yields_required_data_def no_page_def parser_crash_def
        college_page_def has_required_data_def get_def)
  have name: "as_name (get example_player ''full_name'') = example_name"
    by (simp add: as_name_def example_player_def example_name_def get_def)
  from unresolved_lookup_is_flagged_for_review[OF miss nodata,
      of ?d example_player 0 "\<lparr>total = 1, success = 0, failed = 0, needs_review = 0\<rparr>"] name
  show ?thesis
    by (simp add: init_scrapers_def cache_writes_def cache_write_def raw_result_row_def no_page_def parser_crash_def
        college_page_def)
qed

subsection \<open>Failed HTTP requests\<close>

lemma get_body_failed:
  "request_failed (outcome (session_get s url params)) \<Longrightarrow> is_request_exception (get_body s url params)"
  by (auto simp: request_failed_def is_request_exception_def get_body_def raise_for_status_def
      split: sum.splits exn.splits)

lemma get_body_succeeded:
  "request_succeeded (outcome (session_get s url params)) \<Longrightarrow>
   get_body s url params = outcome (session_get s url params)"
  by (auto simp: request_succeeded_def get_body_def raise_for_status_def split: sum.splits)

lemma post_body_failed:
  "request_failed (outcome (session_post s url d j)) \<Longrightarrow> is_request_exception (post_body s url d j)"
  by (auto simp: request_failed_def is_request_exception_def post_body_def raise_for_status_def
      split: sum.splits exn.splits)

lemma post_body_succeeded:
  "request_succeeded (outcome (session_post s url d j)) \<Longrightarrow>
   post_body s url d j = outcome (session_post s url d j)"
  by (auto simp: request_succeeded_def post_body_def raise_for_status_def split: sum.splits)

lemma rate_limit_wait_fields:
  "rate_limit (rate_limit_wait tm st) = rate_limit st"
  "last_request_time (rate_limit_wait tm st) = second_reading tm"
  "wire (rate_limit_wait tm st) = wire st"
  by (simp_all add: rate_limit_wait_def Let_def)

lemma rate_limit_wait_sleeps:
  "sleeps (rate_limit_wait tm st) =
     sleeps st @ (if first_reading tm - last_request_time st < rate_limit st
                  then [rate_limit st - (first_reading tm - last_request_time st)] else [])"
  by (simp add: rate_limit_wait_def Let_def)

lemma rate_limit_wait_log:
  "rate_limiter_log (log_records st) (log_records (rate_limit_wait tm st))"
  by (simp add: rate_limit_wait_def Let_def rate_limiter_log_def)

lemma scraper_get_failed:
  "is_request_exception (get_body s url params) \<Longrightarrow>
   fst (scraper_get s tm url params st) = Inr None
   \<and> logged_error (log_records (rate_limit_wait tm st)) (log_records (snd (scraper_get s tm url params st)))"
  by (auto simp: is_request_exception_def scraper_get_def logged_error_def Let_def
      split: sum.splits exn.splits)

lemma scraper_post_failed:
  "is_request_exception (post_body s url d j) \<Longrightarrow>
   fst (scraper_post s tm url d j st) = Inr None
   \<and> logged_error (log_records (rate_limit_wait tm st)) (log_records (snd (scraper_post s tm url d j st)))"
  by (auto simp: is_request_exception_def scraper_post_def logged_error_def Let_def
      split: sum.splits exn.splits)

lemma scraper_get_no_request_exception: "\<not> is_request_exception (fst (scraper_get s tm url params st))"
  by (auto simp: is_request_exception_def scraper_get_def Let_def split: sum.splits exn.splits)

lemma scraper_post_no_request_exception: "\<not> is_request_exception (fst (scraper_post s tm url d j st))"
  by (auto simp: is_request_exception_def scraper_post_def Let_def split: sum.splits exn.splits)

lemma scraper_get_state:
  "rate_limit (snd (scraper_get s tm url params st)) = rate_limit st"
  "last_request_time (snd (scraper_get s tm url params st)) = second_reading tm"
  "sleeps (snd (scraper_get s tm url params st)) = sleeps (rate_limit_wait tm st)"
  "wire (snd (scraper_get s tm url params st)) =
     wire st @ sent_at (second_reading tm) url (session_get s url params)"
  by (simp_all add: scraper_get_def Let_def rate_limit_wait_fields split: sum.splits exn.splits)

lemma scraper_post_state:
  "rate_limit (snd (scraper_post s tm url d j st)) = rate_limit st"
  "last_request_time (snd (scraper_post s tm url d j st)) = second_reading tm"
  "sleeps (snd (scraper_post s tm url d j st)) = sleeps (rate_limit_wait tm st)"
  "wire (snd (scraper_post s tm url d j st)) =
     wire st @ sent_at (second_reading tm) url (session_post s url d j)"
  by (simp_all add: scraper_post_def Let_def rate_limit_wait_fields split: sum.splits exn.splits)

text \<open>
  Claim C6.  \<open>_get\<close> and \<open>_post\<close> return \<open>None\<close> and log the failure when the
  request fails, that is when the session raises a \<open>requests\<close> exception (connection
  error, timeout, exhausted retries) or the response has a 4xx or 5xx status: after the
  rate limiter, which logs nothing or one \<open>DEBUG\<close> record, they append exactly one
  \<open>ERROR\<close> record.  No \<open>requests\<close> exception leaves them, and on success they
  return the response.
\<close>

theorem failed_requests_return_none:
  "(request_failed (outcome (session_get s url params)) \<longrightarrow>
      fst (scraper_get s tm url params st) = Inr None
      \<and> logged_error (log_records (rate_limit_wait tm st))
            (log_records (snd (scraper_get s tm url params st))))
   \<and> (request_failed (outcome (session_post s url data json_data)) \<longrightarrow>
      fst (scraper_post s tm url data json_data st) = Inr None
      \<and> logged_error (log_records (rate_limit_wait tm st))
            (log_records (snd (scraper_post s tm url data json_data st))))
   \<and> rate_limiter_log (log_records st) (log_records (rate_limit_wait tm st))
   \<and> \<not> is_request_exception (fst (scraper_get s tm url params st))
   \<and> \<not> is_request_exception (fst (scraper_post s tm url data json_data st))
   \<and> (\<forall>response. outcome (session_get s url params) = Inr response
         \<and> request_succeeded (outcome (session_get s url params)) \<longrightarrow>
         fst (scraper_get s tm url params st) = Inr (Some response))
   \<and> (\<forall>response. outcome (session_post s url data json_data) = Inr response
         \<and> request_succeeded (outcome (session_post s url data json_data)) \<longrightarrow>
         fst (scraper_post s tm url data json_data st) = Inr (Some response))"
proof -
  have g1: "request_failed (outcome (session_get s url params)) \<longrightarrow>
      fst (scraper_get s tm url params st) = Inr None
      \<and> logged_error (log_records (rate_limit_wait tm st))
            (log_records (snd (scraper_get s tm url params st)))"
    using get_body_failed scraper_get_failed by blast
  have p1: "request_failed (outcome (session_post s url data json_data)) \<longrightarrow>
      fst (scraper_post s tm url data json_data st) = Inr None
      \<and> logged_error (log_records (rate_limit_wait tm st))
            (log_records (snd (scraper_post s tm url data json_data st)))"
    using post_body_failed scraper_post_failed by blast
  have g2: "\<forall>response. outcome (session_get s url params) = Inr response
         \<and> request_succeeded (outcome (session_get s url params)) \<longrightarrow>
         fst (scraper_get s tm url params st) = Inr (Some response)"
    using get_body_succeeded[of s url params] by (auto simp: scraper_get_def Let_def)
  have p2: "\<forall>response. outcome (session_post s url data json_data) = Inr response
         \<and> request_succeeded (outcome (session_post s url data json_data)) \<longrightarrow>
         fst (scraper_post s tm url data json_data st) = Inr (Some response)"
    using post_body_succeeded[of s url data json_data] by (auto simp: scraper_post_def Let_def)
  from g1 p1 g2 p2 rate_limit_wait_log scraper_get_no_request_exception
    scraper_post_no_request_exception
  show ?thesis by blast
qed

text \<open>
  Requests for C6: a timeout, a 404 and a 503 give \<open>None\<close>, a 200 and a 201 give the
  response; a failing request that had to wait logs \<open>DEBUG\<close> and then \<open>ERROR\<close>.
\<close>

theorem failed_requests_return_none_witness:
  "fst (scraper_get flaky_session at_100 (lit ''down'') None (new_scraper 2)) = Inr None
   \<and> fst (scraper_get flaky_session at_100 (lit ''missing'') None (new_scraper 2)) = Inr None
   \<and> fst (scraper_post flaky_session at_100 (lit ''missing'') None None (new_scraper 2)) = Inr None
   \<and> fst (scraper_get flaky_session at_100 (lit ''page'') None (new_scraper 2))
       = Inr (Some \<lparr>status_code = 200, body = lit ''ok''\<rparr>)
   \<and> fst (scraper_post flaky_session at_100 (lit ''page'') None None (new_scraper 2))
       = Inr (Some \<lparr>status_code = 201, body = lit ''ok''\<rparr>)
   \<and> map fst (log_records (snd (scraper_get flaky_session half_a_second_later (lit ''down'') None
          (snd (scraper_get flaky_session at_100 (lit ''page'') None (new_scraper 2))))))
       = [DEBUG, DEBUG, ERROR]"
proof -
  let ?st = "new_scraper 2"
  have f1: "request_failed (outcome (session_get flaky_session (lit ''down'') None))"
    and f2: "request_failed (outcome (session_get flaky_session (lit ''missing'') None))"
    and f3: "request_failed (outcome (session_post flaky_session (lit ''missing'') None None))"
    by (simp_all add: request_failed_def flaky_session_def lit_simps)
  have s1: "outcome (session_get flaky_session (lit ''page'') None) = Inr \<lparr>status_code = 200, body = lit ''ok''\<rparr>"
    and s2: "outcome (session_post flaky_session (lit ''page'') None None) = Inr \<lparr>status_code = 201, body = lit ''ok''\<rparr>"
    by (simp_all add: flaky_session_def lit_simps)
  have o1: "request_succeeded (outcome (session_get flaky_session (lit ''page'') None))"
    and o2: "request_succeeded (outcome (session_post flaky_session (lit ''page'') None None))"
    by (simp_all add: s1 s2 request_succeeded_def)
  from failed_requests_return_none[of flaky_session "lit ''down''" None at_100 ?st None None] f1
  have a: "fst (scraper_get flaky_session at_100 (lit ''down'') None ?st) = Inr None" by blast
  from failed_requests_return_none[of flaky_session "lit ''missing''" None at_100 ?st None None] f2 f3
  have b: "fst (scraper_get flaky_session at_100 (lit ''missing'') None ?st) = Inr None"
    and c: "fst (scraper_post flaky_session at_100 (lit ''missing'') None None ?st) = Inr None" by blast+
  from failed_requests_return_none[of flaky_session "lit ''page''" None at_100 ?st None None] s1 s2 o1 o2
  have d: "fst (scraper_get flaky_session at_100 (lit ''page'') None ?st) = Inr (Some \<lparr>status_code = 200, body = lit ''ok''\<rparr>)"
    and e: "fst (scraper_post flaky_session at_100 (lit ''page'') None None ?st) = Inr (Some \<lparr>status_code = 201, body = lit ''ok''\<rparr>)"
    by blast+
  have first: "snd (scraper_get flaky_session at_100 (lit ''page'') None ?st) =
      \<lparr>rate_limit = 2, last_request_time = 100,
       log_records = [(DEBUG, [Lit ''GET '', Str (lit ''page''), Lit '' -> '', Val (PInt 200)])],
       sleeps = [], wire = [(100, lit ''page'')]\<rparr>"
    by (simp add: scraper_get_def rate_limit_wait_def new_scraper_def at_100_def Let_def get_body_def
        s1 raise_for_status_def sent_at_def)
       (simp add: flaky_session_def lit_simps)
  have g: "map fst (log_records (snd (scraper_get flaky_session half_a_second_later (lit ''down'') None
          (snd (scraper_get flaky_session at_100 (lit ''page'') None ?st))))) = [DEBUG, DEBUG, ERROR]"
    unfolding first
    by (simp add: scraper_get_def rate_limit_wait_def half_a_second_later_def Let_def get_body_def
        flaky_session_def sent_at_def)
  from a b c d e g show ?thesis by blast
qed

subsection \<open>Rate limiting\<close>

lemma rate_limit_wait_spacing:
  "clock_keeps_time tm st \<Longrightarrow>
   last_request_time st + rate_limit st \<le> last_request_time (rate_limit_wait tm st)"
  by (simp add: rate_limit_wait_fields clock_keeps_time_def remaining_def max_def split: if_splits)

lemma perform_state:
  "rate_limit (perform s tm c st) = rate_limit st"
  "last_request_time (perform s tm c st) = last_request_time (rate_limit_wait tm st)"
  by (cases c; simp add: scraper_get_state scraper_post_state rate_limit_wait_fields)+

lemma time_stamps_spaced:
  "clock_keeps_time_during s calls st \<Longrightarrow>
   spaced (rate_limit st) (last_request_time st # time_stamps s calls st)"
proof (induction calls arbitrary: st)
  case Nil
  show ?case by simp
next
  case (Cons x calls)
  obtain tm c where x: "x = (tm, c)" by (cases x)
  from Cons.prems x have k: "clock_keeps_time tm st"
    and rest: "clock_keeps_time_during s calls (perform s tm c st)" by simp_all
  from Cons.IH[OF rest]
  have "spaced (rate_limit st) (last_request_time (perform s tm c st) # time_stamps s calls (perform s tm c st))"
    by (simp add: perform_state)
  moreover have "last_request_time st + rate_limit st \<le> last_request_time (perform s tm c st)"
    using rate_limit_wait_spacing[OF k] by (simp add: perform_state)
  ultimately show ?case using x by simp
qed

text \<open>
  Claim C8 as stated fails for the requests that the retry adapter sends: on a scraper
  with a rate limit of three seconds and a clock that keeps time, one call of \<open>_get\<close>
  whose server answers 503 twice puts three requests on the wire, one and two seconds
  apart, without a call of \<open>_rate_limit_wait\<close> between them.
\<close>

theorem retried_requests_counterexample:
  "clock_keeps_time at_100 (new_scraper 3)
   \<and> rate_limit (new_scraper 3) = 3
   \<and> map fst (wire (snd (scraper_get retrying_session at_100 (lit ''page'') None (new_scraper 3))))
       = [100, 101, 103]
   \<and> \<not> spaced (rate_limit (new_scraper 3))
         (map fst (wire (snd (scraper_get retrying_session at_100 (lit ''page'') None (new_scraper 3)))))"
  by (simp add: clock_keeps_time_def remaining_def at_100_def new_scraper_def scraper_get_state
      sent_at_def retrying_session_def)

text \<open>
  Claim C8, amended.  Every \<open>_get\<close> and \<open>_post\<close> call begins with
  \<open>_rate_limit_wait\<close>, which asks to sleep for the remaining difference whenever less
  than \<open>rate_limit\<close> seconds have passed since the last recorded request time, and then
  records the current time as the last request time; the call sends its request at that
  time stamp, and the retries of the adapter follow after the adapter's own delays.  On
  a clock that keeps time, the time stamp of a call is at least \<open>rate_limit\<close> seconds
  after the one before it, and so are the time stamps of any two consecutive calls in a
  sequence of calls.
\<close>

theorem rate_limit_spaces_time_stamps:
  "sleeps (rate_limit_wait tm st) =
     sleeps st @ (if first_reading tm - last_request_time st < rate_limit st
                  then [rate_limit st - (first_reading tm - last_request_time st)] else [])
   \<and> last_request_time (rate_limit_wait tm st) = second_reading tm
   \<and> last_request_time (snd (scraper_get s tm url params st)) = last_request_time (rate_limit_wait tm st)
   \<and> sleeps (snd (scraper_get s tm url params st)) = sleeps (rate_limit_wait tm st)
   \<and> wire (snd (scraper_get s tm url params st)) =
        wire st @ sent_at (last_request_time (rate_limit_wait tm st)) url (session_get s url params)
   \<and> last_request_time (snd (scraper_post s tm url data json_data st))
        = last_request_time (rate_limit_wait tm st)
   \<and> sleeps (snd (scraper_post s tm url data json_data st)) = sleeps (rate_limit_wait tm st)
   \<and> wire (snd (scraper_post s tm url data json_data st)) =
        wire st @ sent_at (last_request_time (rate_limit_wait tm st)) url
                    (session_post s url data json_data)
   \<and> (clock_keeps_time tm st \<longrightarrow>
         last_request_time st + rate_limit st \<le> last_request_time (rate_limit_wait tm st))
   \<and> (clock_keeps_time_during s calls st \<longrightarrow>
         spaced (rate_limit st) (last_request_time st # time_stamps s calls st))"
  using rate_limit_wait_spacing[of tm st] time_stamps_spaced[of s calls st]
  by (simp add: rate_limit_wait_sleeps rate_limit_wait_fields scraper_get_state scraper_post_state)

text \<open>
  Two calls for C8 as amended, with a rate limit of two seconds: the second call comes
  half a second after the first, sleeps a second and a half, and its time stamp is two
  seconds after the first.
\<close>

theorem rate_limit_spaces_time_stamps_witness:
  "time_stamps flaky_session
      [(at_100, Get (lit ''page'') None), (half_a_second_later, Post (lit ''down'') None None)]
      (new_scraper 2) = [100, 102]
   \<and> spaced 2 [0, 100, 102]
   \<and> sleeps (perform flaky_session half_a_second_later (Post (lit ''down'') None None)
               (perform flaky_session at_100 (Get (lit ''page'') None) (new_scraper 2))) = [1.5]"
proof -
  let ?calls = "[(at_100, Get (lit ''page'') None), (half_a_second_later, Post (lit ''down'') None None)]"
  have during: "clock_keeps_time_during flaky_session ?calls (new_scraper 2)"
    by (simp add: clock_keeps_time_def remaining_def scraper_get_state scraper_post_state
        rate_limit_wait_fields)
       (simp add: at_100_def half_a_second_later_def new_scraper_def)
  have stamps: "time_stamps flaky_session ?calls (new_scraper 2) = [100, 102]"
    by (simp add: scraper_get_state scraper_post_state rate_limit_wait_fields)
       (simp add: at_100_def half_a_second_later_def)
  have slept: "sleeps (perform flaky_session half_a_second_later (Post (lit ''down'') None None)
               (perform flaky_session at_100 (Get (lit ''page'') None) (new_scraper 2))) = [1.5]"
    by (simp add: scraper_post_state scraper_get_state rate_limit_wait_sleeps rate_limit_wait_fields)
       (simp add: at_100_def half_a_second_later_def new_scraper_def)
  from rate_limit_spaces_time_stamps[of at_100 "new_scraper 2" flaky_session "lit ''page''" None None None ?calls]
    during
  have "spaced (rate_limit (new_scraper 2)) (last_request_time (new_scraper 2)
          # time_stamps flaky_session ?calls (new_scraper 2))"
    by blast
  then have "spaced 2 [0, 100, 102]" by (simp add: stamps new_scraper_def)
  with stamps slept show ?thesis by blast
qed

subsection \<open>Batch validation\<close>

lemma validate_items_returns:
  "\<forall>item \<in> set items. returns validator item \<Longrightarrow>
   validate_items validator item_type items b =
     Inr \<lparr>valid_items = valid_items b @ filter (passes validator) items,
          invalid_items = invalid_items b
             @ map (\<lambda>item. (item, errors_of validator item)) (filter (\<lambda>item. \<not> passes validator item) items),
          logged = logged b
             @ map (\<lambda>item. invalid_warning item_type (errors_of validator item))
                 (filter (\<lambda>item. \<not> passes validator item) items)\<rparr>"
proof (induction items arbitrary: b)
  case Nil
  show ?case by simp
next
  case (Cons item items)
  from Cons.prems obtain is_valid errors where v: "validator item = Inr (is_valid, errors)"
    by (auto simp: returns_def split: sum.splits)
  from Cons.prems have rest: "\<forall>item \<in> set items. returns validator item" by simp
  show ?case
  proof (cases is_valid)
    case True
    with v Cons.IH[OF rest] show ?thesis by (simp add: passes_def errors_of_def)
  next
    case False
    with v Cons.IH[OF rest] show ?thesis by (simp add: passes_def errors_of_def)
  qed
qed

lemma validate_items_raises:
  "item \<in> set items \<Longrightarrow> \<not> returns validator item \<Longrightarrow>
   \<exists>e. validate_items validator item_type items b = Inl e"
proof (induction items arbitrary: b)
  case Nil
  then show ?case by simp
next
  case (Cons x xs)
  show ?case
  proof (cases "validator x")
    case (Inl e)
    then show ?thesis by simp
  next
    case (Inr r)
    obtain is_valid errors where r: "r = (is_valid, errors)" by (cases r)
    from Inr have "returns validator x" by (simp add: returns_def)
    with Cons.prems have "item \<in> set xs" by auto
    from Cons.IH[OF this Cons.prems(2)] Inr r show ?thesis by simp
  qed
qed

lemma known_item_types:
  "(validators ext item_type \<noteq> None) =
     (item_type \<in> {lit ''team'', lit ''player'', lit ''game'', lit ''game_stat''})"
  by (simp add: validators_def)

text \<open>
  Claim C7 as stated fails on a field of an unexpected type: for the known item type
  \<open>game\<close>, a completed game whose home score is the string \<open>85\<close> makes
  \<open>0 <= game['home_score'] <= 200\<close> raise \<open>TypeError\<close>, and the batch raises it.
\<close>

theorem text_score_counterexample:
  "validators example_externals (lit ''game'') = Some (validate_game example_externals)
   \<and> validate_and_clean_batch example_externals [game_with_text_score] (lit ''game'') [] = Inl TypeError"
  by (simp add: validate_and_clean_batch_def validators_def validate_game_def game_with_text_score_def
      example_externals_def get_def lit_simps append_if_def is_valid_date_def date_formats_def
      check_range_not_none_def between_def and_then_def)

text \<open>
  Claim C7, amended.  An unknown item type raises \<open>ValueError\<close>; the known item types
  are \<open>team\<close>, \<open>player\<close>, \<open>game\<close> and \<open>game_stat\<close>.  For a known item type whose
  validator returns on every item, \<open>validate_and_clean_batch\<close> returns and partitions
  its input: the valid list holds the passing items, unchanged and in order, the invalid
  list holds every other item with its list of errors, one warning is logged for each
  invalid item, and every item is in exactly one of the two lists.
\<close>

theorem batch_partitions_items:
  "(validators ext item_type = None \<longrightarrow>
      validate_and_clean_batch ext items item_type lg = Inl ValueError)
   \<and> (\<forall>validator. validators ext item_type = Some validator
         \<and> (\<forall>item \<in> set items. returns validator item) \<longrightarrow>
       (\<exists>b. validate_and_clean_batch ext items item_type lg = Inr b
          \<and> valid_items b = filter (passes validator) items
          \<and> map fst (invalid_items b) = filter (\<lambda>item. \<not> passes validator item) items
          \<and> map snd (invalid_items b)
              = map (errors_of validator) (filter (\<lambda>item. \<not> passes validator item) items)
          \<and> logged b = lg @ map (\<lambda>entry. invalid_warning item_type (snd entry)) (invalid_items b)
          \<and> length (valid_items b) + length (invalid_items b) = length items))
   \<and> ((validators ext item_type \<noteq> None) =
        (item_type \<in> {lit ''team'', lit ''player'', lit ''game'', lit ''game_stat''}))"
proof -
  have unknown: "validators ext item_type = None \<longrightarrow>
      validate_and_clean_batch ext items item_type lg = Inl ValueError"
    by (simp add: validate_and_clean_batch_def)
  have known: "\<exists>b. validate_and_clean_batch ext items item_type lg = Inr b
          \<and> valid_items b = filter (passes validator) items
          \<and> map fst (invalid_items b) = filter (\<lambda>item. \<not> passes validator item) items
          \<and> map snd (invalid_items b)
              = map (errors_of validator) (filter (\<lambda>item. \<not> passes validator item) items)
          \<and> logged b = lg @ map (\<lambda>entry. invalid_warning item_type (snd entry)) (invalid_items b)
          \<and> length (valid_items b) + length (invalid_items b) = length items"
    if v: "validators ext item_type = Some validator"
      and r: "\<forall>item \<in> set items. returns validator item" for validator
  proof -
    have "validate_and_clean_batch ext items item_type lg =
        Inr \<lparr>valid_items = filter (passes validator) items,
             invalid_items = map (\<lambda>item. (item, errors_of validator item))
                               (filter (\<lambda>item. \<not> passes validator item) items),
             logged = lg @ map (\<lambda>item. invalid_warning item_type (errors_of validator item))
                             (filter (\<lambda>item. \<not> passes validator item) items)\<rparr>"
      using validate_items_returns[OF r, of item_type "\<lparr>valid_items = [], invalid_items = [], logged = lg\<rparr>"] v
      by (simp add: validate_and_clean_batch_def)
    then show ?thesis
      by (simp add: comp_def sum_length_filter_compl)
  qed
  from unknown known known_item_types[of ext item_type] show ?thesis by blast
qed

lemma real_madrid_valid: "validate_team example_externals real_madrid = Inr (True, [])"
  by (simp add: validate_team_def real_madrid_def get_def lit_simps append_if_def check_id_format_def
      and_then_def is_valid_id_def match_id_pattern_def is_id_char_def is_upper_az_def is_lower_az_def
      is_digit09_def underscore_def newline_def)

lemma nameless_team_invalid:
  "validate_team example_externals nameless_team =
     Inr (False, [[Lit ''Missing team_name''], [Lit ''Missing league_id''],
                  [Lit ''Invalid team_id format: '', Val (PStr (lit ''bad id''))]])"
  by (simp add: validate_team_def nameless_team_def get_def lit_simps append_if_def check_id_format_def
      and_then_def is_valid_id_def match_id_pattern_def is_id_char_def is_upper_az_def is_lower_az_def
      is_digit09_def underscore_def newline_def)

text \<open>
  A batch for C7 as amended: one valid and one invalid team, and an unknown item type.
\<close>

theorem batch_partitions_items_witness:
  "(\<exists>b. validate_and_clean_batch example_externals [real_madrid, nameless_team] (lit ''team'') [] = Inr b
       \<and> valid_items b = [real_madrid]
       \<and> map fst (invalid_items b) = [nameless_team]
       \<and> map snd (invalid_items b) =
           [[[Lit ''Missing team_name''], [Lit ''Missing league_id''],
             [Lit ''Invalid team_id format: '', Val (PStr (lit ''bad id''))]]])
   \<and> validate_and_clean_batch example_externals [real_madrid] (lit ''coach'') [] = Inl ValueError"
proof -
  let ?v = "validate_team example_externals"
  have v: "validators example_externals (lit ''team'') = Some ?v"
    by (simp add: validators_def)
  have u: "validators example_externals (lit ''coach'') = None"
    by (simp add: validators_def lit_simps)
  have r: "\<forall>item \<in> set [real_madrid, nameless_team]. returns ?v item"
    by (simp add: returns_def real_madrid_valid nameless_team_invalid)
  have p: "passes ?v real_madrid" "\<not> passes ?v nameless_team"
    by (simp_all add: passes_def real_madrid_valid nameless_team_invalid)
  have e: "errors_of ?v nameless_team =
      [[Lit ''Missing team_name''], [Lit ''Missing league_id''],
       [Lit ''Invalid team_id format: '', Val (PStr (lit ''bad id''))]]"
    by (simp add: errors_of_def nameless_team_invalid)
  from batch_partitions_items[of example_externals "lit ''team''" "[real_madrid, nameless_team]" "[]"] v r
  obtain b where b: "validate_and_clean_batch example_externals [real_madrid, nameless_team] (lit ''team'') [] = Inr b"
      "valid_items b = filter (passes ?v) [real_madrid, nameless_team]"
      "map fst (invalid_items b) = filter (\<lambda>item. \<not> passes ?v item) [real_madrid, nameless_team]"
      "map snd (invalid_items b) = map (errors_of ?v) (filter (\<lambda>item. \<not> passes ?v item) [real_madrid, nameless_team])"
    by blast
  from b p e have first: "\<exists>b. validate_and_clean_batch example_externals [real_madrid, nameless_team] (lit ''team'') [] = Inr b
       \<and> valid_items b = [real_madrid]
       \<and> map fst (invalid_items b) = [nameless_team]
       \<and> map snd (invalid_items b) =
           [[[Lit ''Missing team_name''], [Lit ''Missing league_id''],
             [Lit ''Invalid team_id format: '', Val (PStr (lit ''bad id''))]]]"
    by simp
  from batch_partitions_items[of example_externals "lit ''coach''" "[real_madrid]" "[]"] u
  have "validate_and_clean_batch example_externals [real_madrid] (lit ''coach'') [] = Inl ValueError"
    by blast
  with first show ?thesis by blast
qed

subsection \<open>When the validators return\<close>

lemma finishes_Inr: "finishes (Inr x)"
  by (simp add: finishes_def)

lemma finishes_and_then: "finishes (and_then m f) = (\<exists>x. m = Inr x \<and> finishes (f x))"
  by (cases m) (simp_all add: and_then_def finishes_def)

lemma finishes_ex: "(\<exists>x. m = Inr x \<and> P) = (finishes m \<and> P)"
  by (cases m) (simp_all add: finishes_def)

lemma finishes_ex_plain: "(\<exists>x. m = Inr x) = finishes m"
  by (cases m) (simp_all add: finishes_def)

lemmas finishes_simps = finishes_and_then finishes_Inr finishes_ex finishes_ex_plain

lemma returns_finishes: "returns validator item = finishes (validator item)"
  by (simp add: returns_def finishes_def)

lemma finishes_between: "finishes (between lo v hi) = (as_number v \<noteq> None)"
  by (cases v) (simp_all add: between_def as_number_def finishes_def)

lemma finishes_is_valid_id: "truthy v \<Longrightarrow> finishes (is_valid_id v) = is_text v"
  by (cases v) (simp_all add: is_valid_id_def is_text_def finishes_def)

lemma finishes_check_id_format:
  "finishes (check_id_format d key text errors) = (truthy (get d key) \<longrightarrow> is_text (get d key))"
proof (cases "truthy (get d key)")
  case True
  have "finishes (check_id_format d key text errors) = (finishes (is_valid_id (get d key)) \<and> True)"
    unfolding check_id_format_def using True
    by (simp add: finishes_simps)
  with True show ?thesis by (simp add: finishes_is_valid_id)
next
  case False
  then show ?thesis by (simp add: check_id_format_def finishes_Inr)
qed

lemma finishes_check_range_not_none:
  "finishes (check_range_not_none d key lo hi text errors) = number_or_none (get d key)"
proof (cases "get d key = PNone")
  case True
  then show ?thesis by (simp add: check_range_not_none_def finishes_Inr number_or_none_def)
next
  case False
  then show ?thesis
    by (simp add: check_range_not_none_def number_or_none_def
        finishes_simps finishes_between)
qed

lemma finishes_check_range_truthy:
  "finishes (check_range_truthy d key lo hi text errors) =
     (truthy (get d key) \<longrightarrow> as_number (get d key) \<noteq> None)"
  by (simp add: check_range_truthy_def finishes_simps finishes_between)

lemma finishes_check_made_attempted:
  "finishes (check_made_attempted stat made attempted msg errors) =
     comparable (get stat made) (get stat attempted)"
  by (auto simp: check_made_attempted_def comparable_def finishes_simps finishes_def[of "greater a b" for a b]
      split: sum.splits)

lemma finishes_jersey_in_range: "finishes (jersey_in_range ext v) = readable_jersey ext v"
  by (cases v) (auto simp: jersey_in_range_def readable_jersey_def finishes_def split: option.splits)

lemma finishes_check_jersey:
  "finishes (check_jersey ext player errors) =
     (truthy (get player ''jersey_number'') \<longrightarrow> readable_jersey ext (get player ''jersey_number''))"
  by (simp add: check_jersey_def Let_def finishes_simps
      finishes_jersey_in_range)

lemma validate_team_returns:
  "returns (validate_team ext) team =
     (truthy (get team ''team_id'') \<longrightarrow> is_text (get team ''team_id''))"
  by (simp add: returns_finishes validate_team_def Let_def finishes_simps finishes_check_id_format)

lemma validate_game_returns:
  "returns (validate_game ext) game =
     (get game ''status'' = PStr (lit ''completed'') \<longrightarrow>
        number_or_none (get game ''home_score'') \<and> number_or_none (get game ''away_score''))"
  by (simp add: returns_finishes validate_game_def Let_def finishes_simps
      finishes_check_range_not_none)

lemma validate_game_stat_returns:
  "returns (validate_game_stat ext) stat =
     (truthy (get stat ''did_not_play'') \<or>
      number_or_none (get stat ''points'') \<and> number_or_none (get stat ''rebounds_total'')
      \<and> number_or_none (get stat ''assists'')
      \<and> comparable (get stat ''fg_made'') (get stat ''fg_attempted'')
      \<and> comparable (get stat ''three_pt_made'') (get stat ''three_pt_attempted'')
      \<and> comparable (get stat ''ft_made'') (get stat ''ft_attempted''))"
  by (simp add: returns_finishes validate_game_stat_def Let_def finishes_simps
      finishes_check_range_not_none finishes_check_made_attempted)

lemma validate_player_returns:
  "returns (validate_player ext) player =
     ((truthy (get player ''player_id'') \<longrightarrow> is_text (get player ''player_id''))
      \<and> (truthy (get player ''height_cm'') \<longrightarrow> as_number (get player ''height_cm'') \<noteq> None)
      \<and> (truthy (get player ''weight_kg'') \<longrightarrow> as_number (get player ''weight_kg'') \<noteq> None)
      \<and> (truthy (get player ''jersey_number'') \<longrightarrow>
            readable_jersey ext (get player ''jersey_number'')))"
  by (simp add: returns_finishes validate_player_def Let_def finishes_simps
      finishes_check_id_format finishes_check_range_truthy finishes_check_jersey)

end
